theory Spec2Isabelle
  imports Main
begin

section \<open>Presentation timer: the schedule model of script.js\<close>

text \<open>
  The theory embeds the first variant of the timer script (script.js, lines 1 to 1095):
  \<^verbatim>\<open>parseTime\<close>, \<^verbatim>\<open>formatTime\<close>, \<^verbatim>\<open>getTimeStatus\<close>, \<^verbatim>\<open>parseYAMLData\<close>,
  \<^verbatim>\<open>recalculateTimesFromStart\<close>, \<^verbatim>\<open>updateSectionDuration\<close>, \<^verbatim>\<open>getCurrentSection\<close>,
  \<^verbatim>\<open>adjustTimes\<close> and the colour rule of the countdown readout in \<^verbatim>\<open>updateDisplay\<close>.

  Conventions of the embedding.
  \<^item> A JavaScript number that the script obtains from \<^verbatim>\<open>parseInt\<close> or by adding
    integers is \<open>Num n\<close> for an integer \<open>n\<close>, or \<open>NaN\<close>. Integers are unbounded: the loss of
    precision beyond \<open>2^53\<close> is outside the model.
  \<^item> A \<^verbatim>\<open>Date\<close> is \<open>At t\<close>, with \<open>t\<close> the milliseconds of local time counted from a local
    midnight, or \<open>InvalidDate\<close>. Local time is taken to run uniformly (no daylight-saving
    jump), so that a calendar day is a block of \<open>86400000\<close> ms and \<^verbatim>\<open>setMinutes\<close>,
    \<^verbatim>\<open>setDate\<close> are additions. The loops add minutes with \<open>addMinutes\<close>, which leaves out
    the range limit of \<^verbatim>\<open>Date\<close> and the zone; \<open>setMinutes\<close> has both, and the theorem on
    recomputation is stated for the durations on which the two agree.
  \<^item> Every \<^verbatim>\<open>new Date()\<close> of one call reads the same clock value, the parameter \<open>now\<close>.
  \<^item> Strings are lists of 8-bit characters.
  \<^item> The rendering functions (\<^verbatim>\<open>updateDisplay\<close>, \<^verbatim>\<open>updateTimelineDisplay\<close>) read
    \<^verbatim>\<open>presentationData\<close> and never write it; their effects on the page are not modelled.
\<close>

subsection \<open>Numbers and dates\<close>

datatype number = NaN | Num int

datatype jsdate = InvalidDate | At int

datatype status = Red | Yellow | Green

datatype error =
    TimeFormatError              \<comment> \<open>'Time format must be HH:MM:SS'\<close>
  | InvalidTimeComponents        \<comment> \<open>'Invalid time components'\<close>
  | TimeOutOfRange               \<comment> \<open>'Time components out of range'\<close>
  | NoSectionsFound              \<comment> \<open>'No sections found in YAML file'\<close>
  | SectionMissingName nat       \<comment> \<open>'Section i missing name'\<close>
  | SectionMissingDuration string \<comment> \<open>'Section "name" missing duration'\<close>

subsection \<open>String primitives\<close>

definition isWhiteSpace :: "char \<Rightarrow> bool" where
  "isWhiteSpace c = (c = CHR 0x09 \<or> c = CHR 0x0A \<or> c = CHR 0x0B \<or> c = CHR 0x0C
                     \<or> c = CHR 0x0D \<or> c = CHR 0x20 \<or> c = CHR 0xA0)"

definition trim :: "string \<Rightarrow> string" where
  "trim s = rev (dropWhile isWhiteSpace (rev (dropWhile isWhiteSpace s)))"

definition startsWith :: "string \<Rightarrow> string \<Rightarrow> bool" where
  "startsWith s p = (take (length p) s = p)"

fun splitOn :: "char \<Rightarrow> string \<Rightarrow> string list" where
  "splitOn c [] = [[]]"
| "splitOn c (x # xs) =
     (if x = c then [] # splitOn c xs
      else (case splitOn c xs of [] \<Rightarrow> [[x]] | p # ps \<Rightarrow> (x # p) # ps))"

fun indexOf :: "char \<Rightarrow> string \<Rightarrow> nat option" where
  "indexOf c [] = None"
| "indexOf c (x # xs) = (if x = c then Some 0 else map_option Suc (indexOf c xs))"

text \<open>The value of a digit, the letters of either case counting from ten.\<close>

definition digitValue :: "char \<Rightarrow> nat option" where
  "digitValue c =
     (case indexOf c ''0123456789abcdefghijklmnopqrstuvwxyz'' of
        Some v \<Rightarrow> Some v
      | None \<Rightarrow> map_option (\<lambda>v. v + 10) (indexOf c ''ABCDEFGHIJKLMNOPQRSTUVWXYZ''))"

definition isDigitOf :: "nat \<Rightarrow> char \<Rightarrow> bool" where
  "isDigitOf radix c = (case digitValue c of None \<Rightarrow> False | Some v \<Rightarrow> v < radix)"

definition digitOf :: "char \<Rightarrow> int" where
  "digitOf c = (case digitValue c of None \<Rightarrow> 0 | Some v \<Rightarrow> int v)"

definition parseDigits :: "nat \<Rightarrow> string \<Rightarrow> number" where
  "parseDigits radix s =
     (let ds = takeWhile (isDigitOf radix) s in
      if ds = [] then NaN
      else Num (foldl (\<lambda>acc c. acc * int radix + digitOf c) 0 ds))"

text \<open>
  \<^verbatim>\<open>parseInt(string, radix)\<close>: leading white space is skipped, one sign is read, a
  \<^verbatim>\<open>0x\<close> prefix selects radix 16 when no radix (or 16) is given, and the longest run of
  digits is converted; no digit at all gives \<open>NaN\<close>.
\<close>

definition parseInt :: "string \<Rightarrow> nat option \<Rightarrow> number" where
  "parseInt str radix =
     (let s = dropWhile isWhiteSpace str;
          neg = (s \<noteq> [] \<and> hd s = CHR ''-'');
          s1 = (if s \<noteq> [] \<and> (hd s = CHR ''-'' \<or> hd s = CHR ''+'') then tl s else s);
          hex = (startsWith s1 ''0x'' \<or> startsWith s1 ''0X'');
          strip = (hex \<and> (radix = None \<or> radix = Some 16));
          R = (case radix of None \<Rightarrow> (if hex then 16 else 10) | Some r \<Rightarrow> r);
          s2 = (if strip then drop 2 s1 else s1)
      in case parseDigits R s2 of
           NaN \<Rightarrow> NaN
         | Num n \<Rightarrow> Num (if neg then - n else n))"

definition digitChar :: "nat \<Rightarrow> char" where
  "digitChar d = ''0123456789'' ! d"

fun toString :: "nat \<Rightarrow> string" where
  "toString n =
     (if n < 10 then [digitChar n]
      else toString (n div 10) @ [digitChar (n mod 10)])"

declare toString.simps [simp del]

definition padStart2 :: "string \<Rightarrow> string" where
  "padStart2 s = replicate (2 - length s) CHR ''0'' @ s"

subsection \<open>parseTime and formatTime\<close>

definition msPerDay :: int where
  "msPerDay = 86400000"

definition startOfDay :: "int \<Rightarrow> int" where
  "startOfDay t = (t div 86400000) * 86400000"

definition dayOf :: "int \<Rightarrow> int" where
  "dayOf t = t div 86400000"

text \<open>\<^verbatim>\<open>new Date(now.getFullYear(), now.getMonth(), now.getDate(), hours, minutes, seconds)\<close>\<close>

definition newDate :: "int \<Rightarrow> int \<Rightarrow> int \<Rightarrow> int \<Rightarrow> int" where
  "newDate now hours minutes seconds =
     startOfDay now + (hours * 3600 + minutes * 60 + seconds) * 1000"

text \<open>
  \<^verbatim>\<open>parseTime\<close> either throws or returns a valid \<^verbatim>\<open>Date\<close>; the model returns the time
  value of that date. The reference is \<open>None\<close> for \<^verbatim>\<open>null\<close>; against an invalid
  reference date the comparison of the time values is false.
\<close>

definition parseTime :: "string \<Rightarrow> jsdate option \<Rightarrow> int \<Rightarrow> error + int" where
  "parseTime timeString referenceDate now =
     (let timeParts = splitOn CHR '':'' timeString in
      if length timeParts \<noteq> 3 then Inl TimeFormatError
      else
        case (parseInt (timeParts ! 0) (Some 10),
              parseInt (timeParts ! 1) (Some 10),
              parseInt (timeParts ! 2) (Some 10)) of
          (Num hours, Num minutes, Num seconds) \<Rightarrow>
            if hours < 0 \<or> hours > 23 \<or> minutes < 0 \<or> minutes > 59
               \<or> seconds < 0 \<or> seconds > 59
            then Inl TimeOutOfRange
            else
              let date = newDate now hours minutes seconds in
              (case referenceDate of
                 Some (At r) \<Rightarrow>
                   if date < r then Inr (date + msPerDay) else Inr date
               | _ \<Rightarrow> Inr date)
        | _ \<Rightarrow> Inl InvalidTimeComponents)"

definition getHours :: "int \<Rightarrow> nat" where
  "getHours t = nat ((t mod 86400000) div 3600000)"

definition getMinutes :: "int \<Rightarrow> nat" where
  "getMinutes t = nat ((t mod 3600000) div 60000)"

definition getSeconds :: "int \<Rightarrow> nat" where
  "getSeconds t = nat ((t mod 60000) div 1000)"

definition formatTime :: "jsdate \<Rightarrow> string" where
  "formatTime date =
     (case date of
        InvalidDate \<Rightarrow> ''NaN:NaN:NaN''
      | At t \<Rightarrow> padStart2 (toString (getHours t)) @ '':'' @
                padStart2 (toString (getMinutes t)) @ '':'' @
                padStart2 (toString (getSeconds t)))"

text \<open>
  \<^verbatim>\<open>endTime.setMinutes(endTime.getMinutes() + duration)\<close>, as the addition of the minutes
  to the local time. This is what \<^verbatim>\<open>setMinutes\<close> does as long as the result is within
  the range of \<^verbatim>\<open>Date\<close> and local time runs uniformly.
\<close>

definition addMinutes :: "jsdate \<Rightarrow> number \<Rightarrow> jsdate" where
  "addMinutes date duration =
     (case (date, duration) of
        (At t, Num k) \<Rightarrow> At (t + k * 60000)
      | _ \<Rightarrow> InvalidDate)"

text \<open>
  The range of \<^verbatim>\<open>Date\<close>, 8.64e15 ms on either side of the epoch, and \<^verbatim>\<open>setMinutes\<close>
  in full. The function \<open>zone\<close> maps the local time asked for to the local time that the
  date then shows: the identity where local time runs uniformly, while a time in an hour
  that daylight saving skips is moved out of it. A result out of range is an invalid date.
\<close>

definition inDateRange :: "int \<Rightarrow> bool" where
  "inDateRange t = (- 8640000000000000 \<le> t \<and> t \<le> 8640000000000000)"

definition setMinutes :: "(int \<Rightarrow> int) \<Rightarrow> jsdate \<Rightarrow> number \<Rightarrow> jsdate" where
  "setMinutes zone date minutes =
     (case (date, minutes) of
        (At t, Num k) \<Rightarrow>
          (let r = zone (t + k * 60000) in if inDateRange r then At r else InvalidDate)
      | _ \<Rightarrow> InvalidDate)"

subsection \<open>Colour rules\<close>

definition getTimeStatus :: "int \<Rightarrow> int \<Rightarrow> int \<Rightarrow> status" where
  "getTimeStatus currentTime startTime endTime =
     (let now = currentTime; end = endTime;
          fiveMinutesBefore = end - (5 * 60 * 1000)
      in if now > end then Red
         else if now \<ge> fiveMinutesBefore then Yellow
         else Green)"

text \<open>The colour class that \<^verbatim>\<open>updateDisplay\<close> gives the countdown readout (lines 600 to 608).\<close>

definition timeRemainingClass :: "int \<Rightarrow> status" where
  "timeRemainingClass timeRemaining =
     (if timeRemaining \<le> 0 then Red
      else if timeRemaining \<le> 1 * 60 * 1000 then Red
      else if timeRemaining \<le> 5 * 60 * 1000 then Yellow
      else Green)"

subsection \<open>The schedule and the program state\<close>

record section_rec =
  name :: string
  duration :: number
  start :: string
  end' :: string

record schedule =
  title :: string
  start_time :: string
  sections :: "section_rec list"

text \<open>
  The messages that the state-changing operations pass to \<^verbatim>\<open>console.error\<close>. The line
  that \<^verbatim>\<open>parseTime\<close> logs before it rethrows, and what the rendering functions log, are
  not recorded.
\<close>

datatype report =
    NoPresentationData             \<comment> \<open>'No presentation data available'\<close>
  | InvalidSectionIndex int        \<comment> \<open>'Invalid section index:'\<close>
  | InvalidDuration number         \<comment> \<open>'Invalid duration:'\<close>
  | ErrorRecalculatingTimes error  \<comment> \<open>'Error recalculating times:'\<close>
  | CouldNotFindCurrentSection     \<comment> \<open>'Could not find current section in data'\<close>
  | ErrorAdjustingTimes error      \<comment> \<open>'Error adjusting times:'\<close>

record state =
  presentationData :: "schedule option"
  console :: "report list"

definition consoleError :: "report \<Rightarrow> state \<Rightarrow> state" where
  "consoleError r st = st\<lparr>console := console st @ [r]\<rparr>"

subsection \<open>recalculateTimesFromStart\<close>

text \<open>
  The body of the \<^verbatim>\<open>forEach\<close> of \<^verbatim>\<open>recalculateTimesFromStart\<close>. Each section is written
  in place, so when \<^verbatim>\<open>parseTime\<close> throws the sections already visited keep their new
  fields, the section being visited keeps its new \<^verbatim>\<open>start\<close>, and the rest is untouched.
\<close>

fun recalcSections :: "jsdate \<Rightarrow> section_rec list \<Rightarrow> int \<Rightarrow> error option \<times> section_rec list" where
  "recalcSections currentTime [] now = (None, [])"
| "recalcSections currentTime (s # ss) now =
     (let s1 = s\<lparr>start := formatTime currentTime\<rparr> in
      case parseTime (formatTime currentTime) (Some currentTime) now of
        Inl e \<Rightarrow> (Some e, s1 # ss)
      | Inr t \<Rightarrow>
          let endTime = addMinutes (At t) (duration s);
              s2 = s1\<lparr>end' := formatTime endTime\<rparr>;
              (r, ss') = recalcSections endTime ss now
          in (r, s2 # ss'))"

definition recalculateTimesFromStart :: "string \<Rightarrow> int \<Rightarrow> state \<Rightarrow> state" where
  "recalculateTimesFromStart newStartTime now st =
     (case presentationData st of
        None \<Rightarrow> consoleError NoPresentationData st
      | Some data \<Rightarrow>
          let data1 = data\<lparr>start_time := newStartTime\<rparr> in
          (case parseTime newStartTime None now of
             Inl e \<Rightarrow>
               consoleError (ErrorRecalculatingTimes e) (st\<lparr>presentationData := Some data1\<rparr>)
           | Inr t \<Rightarrow>
               (case recalcSections (At t) (sections data1) now of
                  (None, secs) \<Rightarrow> st\<lparr>presentationData := Some (data1\<lparr>sections := secs\<rparr>)\<rparr>
                | (Some e, secs) \<Rightarrow>
                    consoleError (ErrorRecalculatingTimes e)
                      (st\<lparr>presentationData := Some (data1\<lparr>sections := secs\<rparr>)\<rparr>))))"

subsection \<open>updateSectionDuration\<close>

text \<open>\<^verbatim>\<open>!newDuration || newDuration < 1\<close>: \<open>NaN\<close> and \<open>0\<close> are falsy.\<close>

definition invalidDuration :: "number \<Rightarrow> bool" where
  "invalidDuration newDuration =
     (case newDuration of NaN \<Rightarrow> True | Num n \<Rightarrow> n = 0 \<or> n < 1)"

definition updateSectionDuration :: "int \<Rightarrow> number \<Rightarrow> int \<Rightarrow> state \<Rightarrow> state" where
  "updateSectionDuration sectionIndex newDuration now st =
     (case presentationData st of
        None \<Rightarrow> consoleError NoPresentationData st
      | Some data \<Rightarrow>
          if sectionIndex < 0 \<or> sectionIndex \<ge> int (length (sections data))
          then consoleError (InvalidSectionIndex sectionIndex) st
          else if invalidDuration newDuration
          then consoleError (InvalidDuration newDuration) st
          else
            let i = nat sectionIndex;
                secs = (sections data)[i := (sections data ! i)\<lparr>duration := newDuration\<rparr>];
                st1 = st\<lparr>presentationData := Some (data\<lparr>sections := secs\<rparr>)\<rparr>
            in recalculateTimesFromStart (start_time data) now st1)"

subsection \<open>getCurrentSection\<close>

record currentSection =
  cs_name :: string
  cs_start :: int
  cs_end :: int

text \<open>
  The three \<^verbatim>\<open>parseTime\<close> calls that resolve a section's interval; one that throws is
  caught by the \<^verbatim>\<open>try\<close> around the section and the scan goes on.
\<close>

definition resolveInterval :: "schedule \<Rightarrow> section_rec \<Rightarrow> int \<Rightarrow> error + (int \<times> int)" where
  "resolveInterval data s now =
     (case parseTime (start_time data) None now of
        Inl e \<Rightarrow> Inl e
      | Inr presentationStartTime \<Rightarrow>
          (case parseTime (start s) (Some (At presentationStartTime)) now of
             Inl e \<Rightarrow> Inl e
           | Inr startTime \<Rightarrow>
               (case parseTime (end' s) (Some (At startTime)) now of
                  Inl e \<Rightarrow> Inl e
                | Inr endTime \<Rightarrow> Inr (startTime, endTime))))"

fun scanSections :: "schedule \<Rightarrow> int \<Rightarrow> int \<Rightarrow> section_rec list \<Rightarrow> currentSection option" where
  "scanSections data currentTime now [] = None"
| "scanSections data currentTime now (s # ss) =
     (case resolveInterval data s now of
        Inr (sectionStart, sectionEnd) \<Rightarrow>
          if currentTime \<ge> sectionStart \<and> currentTime < sectionEnd
          then Some \<lparr>cs_name = name s, cs_start = sectionStart, cs_end = sectionEnd\<rparr>
          else scanSections data currentTime now ss
      | Inl e \<Rightarrow> scanSections data currentTime now ss)"

text \<open>
  The argument \<open>time\<close> is the instant asked about; \<open>now\<close> is the clock \<^verbatim>\<open>parseTime\<close> reads.
  The function changes nothing; what it writes to the console is not recorded.
\<close>

definition getCurrentSection :: "int \<Rightarrow> int \<Rightarrow> state \<Rightarrow> currentSection option" where
  "getCurrentSection time now st =
     (case presentationData st of
        None \<Rightarrow> None
      | Some data \<Rightarrow> scanSections data time now (sections data))"

subsection \<open>adjustTimes\<close>

fun findIndex :: "('a \<Rightarrow> bool) \<Rightarrow> 'a list \<Rightarrow> nat option" where
  "findIndex P [] = None"
| "findIndex P (x # xs) =
     (if P x then Some 0 else map_option Suc (findIndex P xs))"

definition addNumber :: "number \<Rightarrow> int \<Rightarrow> number" where
  "addNumber a k = (case a of NaN \<Rightarrow> NaN | Num n \<Rightarrow> Num (n + k))"

definition lessThanOne :: "number \<Rightarrow> bool" where
  "lessThanOne a = (case a of NaN \<Rightarrow> False | Num n \<Rightarrow> n < 1)"

definition adjustTimes :: "int \<Rightarrow> int \<Rightarrow> state \<Rightarrow> state" where
  "adjustTimes minutes now st =
     (case presentationData st of
        None \<Rightarrow> consoleError NoPresentationData st
      | Some data \<Rightarrow>
          (case parseTime (start_time data) None now of
             Inl e \<Rightarrow> consoleError (ErrorAdjustingTimes e) st
           | Inr presentationStartTime \<Rightarrow>
               if now < presentationStartTime then
                 let newStartTime = At (presentationStartTime + minutes * 60 * 1000);
                     newStartTimeString = formatTime newStartTime
                 in recalculateTimesFromStart newStartTimeString now st
               else
                 (case getCurrentSection now now st of
                    None \<Rightarrow> st
                  | Some currentSection \<Rightarrow>
                      (case findIndex (\<lambda>s. name s = cs_name currentSection) (sections data) of
                         None \<Rightarrow> consoleError CouldNotFindCurrentSection st
                       | Some sectionIndex \<Rightarrow>
                           let s = sections data ! sectionIndex;
                               newDuration = addNumber (duration s) minutes
                           in if lessThanOne newDuration then st
                              else updateSectionDuration (int sectionIndex) newDuration now st))))"

subsection \<open>The timeline rows\<close>

text \<open>
  What \<^verbatim>\<open>createTimelineItem\<close> and \<^verbatim>\<open>updateTimelineItem\<close> compute for the row of a
  section: the status class of its time box and whether the row is highlighted as the
  current section. An exception is caught and the row is left as it was.
\<close>

definition createTimelineItem ::
    "section_rec \<Rightarrow> string option \<Rightarrow> int \<Rightarrow> schedule \<Rightarrow> int \<Rightarrow> error + (status \<times> bool)" where
  "createTimelineItem s currentSectionName currentTime data now =
     (case resolveInterval data s now of
        Inl e \<Rightarrow> Inl e
      | Inr (startTime, endTime) \<Rightarrow>
          Inr (getTimeStatus currentTime startTime endTime,
               Some (name s) = currentSectionName))"

subsection \<open>parseYAMLData\<close>

text \<open>
  While the lines are read a section has a name and perhaps a duration (\<open>None\<close> is
  \<^verbatim>\<open>undefined\<close>); \<^verbatim>\<open>start\<close> and \<^verbatim>\<open>end\<close> are added by the second loop.
\<close>

record rawSection =
  raw_name :: string
  raw_duration :: "number option"

record rawData =
  raw_title :: string
  raw_start_time :: "string option"
  raw_sections :: "rawSection list"

text \<open>\<^verbatim>\<open>.replace(/['"]+/g, '')\<close>\<close>

definition removeQuotes :: "string \<Rightarrow> string" where
  "removeQuotes s = filter (\<lambda>c. c \<noteq> CHR 0x27 \<and> c \<noteq> CHR 0x22) s"

definition setLastDuration :: "number \<Rightarrow> rawSection list \<Rightarrow> rawSection list" where
  "setLastDuration d secs = butlast secs @ [(last secs)\<lparr>raw_duration := Some d\<rparr>]"

definition parseLine :: "rawData \<times> bool \<Rightarrow> string \<Rightarrow> rawData \<times> bool" where
  "parseLine acc originalLine =
     (let data = fst acc; inSections = snd acc; line = trim originalLine in
      if line = [] \<or> startsWith line ''#'' then acc
      else if startsWith line ''title:'' then
        (data\<lparr>raw_title := removeQuotes (trim (drop 6 line))\<rparr>, inSections)
      else if startsWith line ''start_time:'' then
        (data\<lparr>raw_start_time := Some (removeQuotes (trim (drop 11 line)))\<rparr>, inSections)
      else if line = ''sections:'' then (data, True)
      else if inSections \<and> startsWith line ''- name:'' then
        (data\<lparr>raw_sections := raw_sections data @
            [\<lparr>raw_name = removeQuotes (trim (drop 7 line)), raw_duration = None\<rparr>]\<rparr>,
         inSections)
      else if inSections \<and> length (raw_sections data) > 0 then
        (if startsWith line ''duration:'' then
           (data\<lparr>raw_sections :=
               setLastDuration (parseInt (trim (drop 9 line)) None) (raw_sections data)\<rparr>,
            inSections)
         else acc)
      else acc)"

text \<open>The second \<^verbatim>\<open>forEach\<close>: validation and derivation of \<^verbatim>\<open>start\<close> and \<^verbatim>\<open>end\<close>.\<close>

fun deriveSections :: "jsdate \<Rightarrow> nat \<Rightarrow> rawSection list \<Rightarrow> int \<Rightarrow> error + section_rec list" where
  "deriveSections currentTime index [] now = Inr []"
| "deriveSections currentTime index (s # ss) now =
     (if raw_name s = [] then Inl (SectionMissingName index)
      else
        case raw_duration s of
          None \<Rightarrow> Inl (SectionMissingDuration (raw_name s))
        | Some d \<Rightarrow>
            (case parseTime (formatTime currentTime) (Some currentTime) now of
               Inl e \<Rightarrow> Inl e
             | Inr t \<Rightarrow>
                 let endTime = addMinutes (At t) d in
                 (case deriveSections endTime (Suc index) ss now of
                    Inl e \<Rightarrow> Inl e
                  | Inr rest \<Rightarrow>
                      Inr (\<lparr>name = raw_name s, duration = d,
                            start = formatTime currentTime,
                            end' = formatTime endTime\<rparr> # rest))))"

definition parseYAMLData :: "string \<Rightarrow> int \<Rightarrow> error + schedule" where
  "parseYAMLData yamlText now =
     (let lines = splitOn CHR 0x0A yamlText;
          data = fst (foldl parseLine
                   (\<lparr>raw_title = [], raw_start_time = None, raw_sections = []\<rparr>, False) lines);
          title' = (if raw_title data = [] then ''Presentation Timer'' else raw_title data);
          start_time' = (case raw_start_time data of
                           None \<Rightarrow> formatTime (At now)
                         | Some t \<Rightarrow> if t = [] then formatTime (At now) else t)
      in if length (raw_sections data) = 0 then Inl NoSectionsFound
         else
           case parseTime start_time' None now of
             Inl e \<Rightarrow> Inl e
           | Inr t \<Rightarrow>
               (case deriveSections (At t) 0 (raw_sections data) now of
                  Inl e \<Rightarrow> Inl e
                | Inr secs \<Rightarrow>
                    Inr \<lparr>title = title', start_time = start_time', sections = secs\<rparr>))"

subsection \<open>Auxiliary notions for the statements\<close>

text \<open>The resolved interval of a section contains the instant \<open>time\<close>.\<close>

definition contains :: "schedule \<Rightarrow> int \<Rightarrow> int \<Rightarrow> section_rec \<Rightarrow> bool" where
  "contains data time now s =
     (case resolveInterval data s now of
        Inr (a, b) \<Rightarrow> a \<le> time \<and> time < b
      | Inl e \<Rightarrow> False)"

definition asCurrent :: "schedule \<Rightarrow> int \<Rightarrow> section_rec \<Rightarrow> currentSection option" where
  "asCurrent data now s =
     (case resolveInterval data s now of
        Inr (a, b) \<Rightarrow> Some \<lparr>cs_name = name s, cs_start = a, cs_end = b\<rparr>
      | Inl e \<Rightarrow> None)"

text \<open>The day rollover of \<^verbatim>\<open>parseTime\<close>: one day is added when the date is before the reference.\<close>

definition rollForward :: "jsdate option \<Rightarrow> int \<Rightarrow> int" where
  "rollForward referenceDate date =
     (case referenceDate of
        Some (At r) \<Rightarrow> if date < r then date + msPerDay else date
      | _ \<Rightarrow> date)"

text \<open>The time of day that a string denotes, in milliseconds after midnight.\<close>

definition clockTime :: "string \<Rightarrow> error + int" where
  "clockTime s = parseTime s None 0"

text \<open>
  Recomputation as the specification words it: section \<open>i\<close> starts at the instant where
  section \<open>i - 1\<close> ends, the first one at \<open>x\<close>, and ends its duration in minutes later;
  \<^verbatim>\<open>start\<close> and \<^verbatim>\<open>end\<close> hold these instants formatted as HH:MM:SS.
\<close>

fun derivedFrom :: "int \<Rightarrow> section_rec list \<Rightarrow> bool" where
  "derivedFrom x [] = True"
| "derivedFrom x (s # rest) =
     (case duration s of
        NaN \<Rightarrow> False
      | Num k \<Rightarrow> start s = formatTime (At x)
                 \<and> end' s = formatTime (At (x + k * 60000))
                 \<and> derivedFrom (x + k * 60000) rest)"

text \<open>The end of a section is its start plus its duration in minutes, as times of day.\<close>

definition endsAfterDuration :: "section_rec \<Rightarrow> bool" where
  "endsAfterDuration s =
     (case (duration s, clockTime (start s), clockTime (end' s)) of
        (Num k, Inr a, Inr b) \<Rightarrow> b = (a + k * 60000) mod 86400000
      | _ \<Rightarrow> False)"

text \<open>Every section ends where the next one starts.\<close>

fun adjacent :: "section_rec list \<Rightarrow> bool" where
  "adjacent (s # s' # rest) = (end' s = start s' \<and> adjacent (s' # rest))"
| "adjacent _ = True"

text \<open>
  The first section starts at the schedule's start time: its \<^verbatim>\<open>start\<close> is that time of day
  written as HH:MM:SS.
\<close>

definition startsAt :: "string \<Rightarrow> section_rec list \<Rightarrow> bool" where
  "startsAt startTime secs =
     (case (secs, clockTime startTime) of
        (s # _, Inr c) \<Rightarrow> start s = formatTime (At c) \<and> clockTime (start s) = Inr c
      | _ \<Rightarrow> False)"

text \<open>The invariant of the derived fields of a schedule.\<close>

definition chained :: "schedule \<Rightarrow> bool" where
  "chained data =
     (startsAt (start_time data) (sections data)
      \<and> adjacent (sections data)
      \<and> list_all endsAfterDuration (sections data))"

text \<open>
  A duration is numeric and small enough for the clock: every date that the loops of
  \<^verbatim>\<open>recalculateTimesFromStart\<close> and \<^verbatim>\<open>parseYAMLData\<close> build from it, starting within two
  days of the clock's midnight, stays within the range of \<^verbatim>\<open>Date\<close>.
\<close>

definition withinDateRange :: "int \<Rightarrow> number \<Rightarrow> bool" where
  "withinDateRange now minutes =
     (case minutes of
        NaN \<Rightarrow> False
      | Num k \<Rightarrow> \<bar>now\<bar> + 2 * 86400000 + \<bar>k\<bar> * 60000 \<le> 8640000000000000)"

text \<open>The data that the first loop of \<^verbatim>\<open>parseYAMLData\<close> reads from the lines.\<close>

definition readLines :: "string \<Rightarrow> rawData" where
  "readLines yamlText =
     fst (foldl parseLine
            (\<lparr>raw_title = [], raw_start_time = None, raw_sections = []\<rparr>, False)
            (splitOn CHR 0x0A yamlText))"

subsection \<open>Example schedules\<close>

text \<open>The schedule of the end-to-end example: Intro 10, Body 25, QA 15, from 09:00:00.\<close>

definition demoSchedule :: schedule where
  "demoSchedule =
     \<lparr>title = ''Demo'', start_time = ''09:00:00'',
      sections =
        [\<lparr>name = ''Intro'', duration = Num 10, start = ''09:00:00'', end' = ''09:10:00''\<rparr>,
         \<lparr>name = ''Body'', duration = Num 25, start = ''09:10:00'', end' = ''09:35:00''\<rparr>,
         \<lparr>name = ''QA'', duration = Num 15, start = ''09:35:00'', end' = ''09:50:00''\<rparr>]\<rparr>"

definition demoState :: state where
  "demoState = \<lparr>presentationData = Some demoSchedule, console = []\<rparr>"

text \<open>Configuration texts whose only section has the duration 0, -5 and "ten".\<close>

definition zeroDurationYAML :: string where
  "zeroDurationYAML =
     ''start_time: 09:00:00'' @ [CHR 0x0A] @
     ''sections:'' @ [CHR 0x0A] @
     ''  - name: Intro'' @ [CHR 0x0A] @
     ''    duration: 0''"

definition negativeDurationYAML :: string where
  "negativeDurationYAML =
     ''start_time: 09:00:00'' @ [CHR 0x0A] @
     ''sections:'' @ [CHR 0x0A] @
     ''  - name: Intro'' @ [CHR 0x0A] @
     ''    duration: -5''"

definition wordDurationYAML :: string where
  "wordDurationYAML =
     ''start_time: 09:00:00'' @ [CHR 0x0A] @
     ''sections:'' @ [CHR 0x0A] @
     ''  - name: Intro'' @ [CHR 0x0A] @
     ''    duration: ten''"

text \<open>A schedule in which the first and the third section are both called Break.\<close>

definition repeatedNameSchedule :: schedule where
  "repeatedNameSchedule =
     \<lparr>title = ''Workshop'', start_time = ''09:00:00'',
      sections =
        [\<lparr>name = ''Break'', duration = Num 5, start = ''09:00:00'', end' = ''09:05:00''\<rparr>,
         \<lparr>name = ''Talk'', duration = Num 10, start = ''09:05:00'', end' = ''09:15:00''\<rparr>,
         \<lparr>name = ''Break'', duration = Num 5, start = ''09:15:00'', end' = ''09:20:00''\<rparr>]\<rparr>"

definition repeatedNameState :: state where
  "repeatedNameState = \<lparr>presentationData = Some repeatedNameSchedule, console = []\<rparr>"

text \<open>The configuration text of the end-to-end example.\<close>

definition demoYAML :: string where
  "demoYAML =
     ''title: \"Demo\"'' @ [CHR 0x0A] @
     ''start_time: \"09:00:00\"'' @ [CHR 0x0A] @
     ''sections:'' @ [CHR 0x0A] @
     ''  - name: \"Intro\"'' @ [CHR 0x0A] @
     ''    duration: 10'' @ [CHR 0x0A] @
     ''  - name: \"Body\"'' @ [CHR 0x0A] @
     ''    duration: 25'' @ [CHR 0x0A] @
     ''  - name: \"QA\"'' @ [CHR 0x0A] @
     ''    duration: 15'' @ [CHR 0x0A]"


text \<open>
  The resolution of a time of day as the specification words it: on the calendar day of
  the reference, rolled to the next day when that instant is strictly earlier than the
  reference.
\<close>

definition resolveOnReferenceDay :: "int \<Rightarrow> int \<Rightarrow> int" where
  "resolveOnReferenceDay timeOfDay reference =
     (let date = startOfDay reference + timeOfDay
      in if date < reference then date + msPerDay else date)"

text \<open>A schedule that runs for more than a day: 23:00:00, 90 minutes, then 1430 minutes.\<close>

definition overnightSchedule :: schedule where
  "overnightSchedule =
     \<lparr>title = ''Overnight'', start_time = ''23:00:00'',
      sections =
        [\<lparr>name = ''Evening'', duration = Num 90, start = ''23:00:00'', end' = ''00:30:00''\<rparr>,
         \<lparr>name = ''Vigil'', duration = Num 1430, start = ''00:30:00'', end' = ''00:20:00''\<rparr>]\<rparr>"

text \<open>A section of 20 minutes whose times are not derived yet.\<close>

definition closingSection :: section_rec where
  "closingSection = \<lparr>name = ''Closing'', duration = Num 20, start = '''', end' = ''''\<rparr>"


text \<open>The example schedule with a first section whose duration is not a number.\<close>

definition nanFirstSchedule :: schedule where
  "nanFirstSchedule =
     \<lparr>title = ''Demo'', start_time = ''09:00:00'',
      sections =
        [\<lparr>name = ''Intro'', duration = NaN, start = ''09:00:00'', end' = ''09:10:00''\<rparr>,
         \<lparr>name = ''Body'', duration = Num 25, start = ''09:10:00'', end' = ''09:35:00''\<rparr>,
         \<lparr>name = ''QA'', duration = Num 15, start = ''09:35:00'', end' = ''09:50:00''\<rparr>]\<rparr>"

section \<open>Verified properties\<close>

subsection \<open>The colour of the countdown readout\<close>

text \<open>
  Claim C8. For every remaining time in milliseconds the readout is Red exactly when the
  value is at most 60000 (every value at or below 0 included), Yellow exactly when it is
  above 60000 and at most 300000, and Green exactly when it is above 300000; so 0 and
  60000 are Red, 60001 and 300000 are Yellow, and 300001 is Green.
\<close>

theorem timeRemainingClass_thresholds:
  "(timeRemainingClass ms = Red) = (ms \<le> 60000)
   \<and> (timeRemainingClass ms = Yellow) = (60000 < ms \<and> ms \<le> 300000)
   \<and> (timeRemainingClass ms = Green) = (300000 < ms)
   \<and> timeRemainingClass 0 = Red \<and> timeRemainingClass 60000 = Red
   \<and> timeRemainingClass 60001 = Yellow \<and> timeRemainingClass 300000 = Yellow
   \<and> timeRemainingClass 300001 = Green"
  by (simp add: timeRemainingClass_def)

subsection \<open>The colour of a timeline row\<close>

text \<open>
  Claim C9. \<^verbatim>\<open>getTimeStatus\<close> is Red exactly when now is strictly after the end, Yellow
  exactly when now is at least the end minus five minutes and not after the end (now equal
  to the end is Yellow), and Green otherwise. The start is ignored and the result depends
  on the distance from now to the end only. The row of every section gets this status
  from its resolved interval, whatever the name of the current section is.
\<close>

theorem getTimeStatus_rule:
  "(getTimeStatus now s e = Red) = (now > e)
   \<and> (getTimeStatus now s e = Yellow) = (e - 300000 \<le> now \<and> now \<le> e)
   \<and> (getTimeStatus now s e = Green) = (now < e - 300000)
   \<and> getTimeStatus e s e = Yellow
   \<and> getTimeStatus now s e = getTimeStatus (now - e) s' 0
   \<and> map_sum id fst (createTimelineItem sec currentSectionName now data clock) =
       (case resolveInterval data sec clock of
          Inl err \<Rightarrow> Inl err
        | Inr (a, b) \<Rightarrow> Inr (getTimeStatus now a b))"
  by (auto simp add: getTimeStatus_def createTimelineItem_def Let_def split: sum.splits)

subsection \<open>Current-section resolution\<close>

lemma scanSections_find:
  "scanSections data t now ss =
     (case find (contains data t now) ss of
        None \<Rightarrow> None
      | Some s \<Rightarrow> asCurrent data now s)"
  by (induction ss) (auto simp: contains_def asCurrent_def split: sum.splits)

text \<open>
  Claim C5. \<^verbatim>\<open>getCurrentSection\<close> scans the sections in order and returns the first one
  whose resolved interval has start \<le> now < end, with the name and the resolved bounds of
  that section; the end is exclusive, so a section that ends at now is not current. It
  returns null exactly when now lies in no section's resolved interval. A section whose
  times do not resolve (\<^verbatim>\<open>parseTime\<close> throws) has no interval and is passed over.
\<close>

theorem getCurrentSection_first_match:
  assumes "presentationData st = Some data"
  shows "(getCurrentSection time now st = Some cs) =
           (\<exists>i < length (sections data). \<exists>a b.
               resolveInterval data (sections data ! i) now = Inr (a, b)
             \<and> a \<le> time \<and> time < b
             \<and> cs = \<lparr>cs_name = name (sections data ! i), cs_start = a, cs_end = b\<rparr>
             \<and> (\<forall>k < i. \<not> contains data time now (sections data ! k)))
       \<and> (getCurrentSection time now st = None) =
           (\<forall>i < length (sections data). \<not> contains data time now (sections data ! i))"
proof -
  let ?P = "contains data time now"
  let ?ss = "sections data"
  have g: "getCurrentSection time now st =
             (case find ?P ?ss of None \<Rightarrow> None | Some s \<Rightarrow> asCurrent data now s)"
    using assms by (simp add: getCurrentSection_def scanSections_find)
  have some: "?P s \<Longrightarrow> \<exists>a b. resolveInterval data s now = Inr (a, b) \<and> a \<le> time \<and> time < b
                 \<and> asCurrent data now s = Some \<lparr>cs_name = name s, cs_start = a, cs_end = b\<rparr>" for s
    by (auto simp: contains_def asCurrent_def split: sum.splits)
  have A: "(getCurrentSection time now st = Some cs) =
           (\<exists>i < length ?ss. \<exists>a b.
               resolveInterval data (?ss ! i) now = Inr (a, b)
             \<and> a \<le> time \<and> time < b
             \<and> cs = \<lparr>cs_name = name (?ss ! i), cs_start = a, cs_end = b\<rparr>
             \<and> (\<forall>k < i. \<not> ?P (?ss ! k)))" (is "?L = ?R")
  proof
    assume ?L
    then obtain s where f: "find ?P ?ss = Some s" and c: "asCurrent data now s = Some cs"
      by (auto simp: g split: option.splits)
    from f obtain i where i: "i < length ?ss" "?P (?ss ! i)" "s = ?ss ! i" "\<forall>j<i. \<not> ?P (?ss ! j)"
      unfolding find_Some_iff by blast
    from some[OF i(2)] c i(3) i(1) i(4) show ?R by auto
  next
    assume ?R
    then obtain i a b where i: "i < length ?ss" "resolveInterval data (?ss ! i) now = Inr (a, b)"
      "a \<le> time" "time < b" "cs = \<lparr>cs_name = name (?ss ! i), cs_start = a, cs_end = b\<rparr>"
      "\<forall>k < i. \<not> ?P (?ss ! k)" by blast
    have p: "?P (?ss ! i)" using i(2,3,4) by (simp add: contains_def)
    have "find ?P ?ss = Some (?ss ! i)"
      unfolding find_Some_iff using i(1) p i(6) by blast
    then show ?L using i(2,5) by (simp add: g asCurrent_def)
  qed
  have B: "(getCurrentSection time now st = None) =
           (\<forall>i < length ?ss. \<not> ?P (?ss ! i))"
  proof -
    have "\<exists>y. asCurrent data now s = Some y" if "find ?P ?ss = Some s" for s
    proof -
      from that have "?P s" unfolding find_Some_iff by blast
      from some[OF this] show ?thesis by blast
    qed
    then have "(getCurrentSection time now st = None) = (find ?P ?ss = None)"
      by (auto simp: g split: option.splits)
    also have "\<dots> = (\<forall>i < length ?ss. \<not> ?P (?ss ! i))"
      unfolding find_None_iff by (metis in_set_conv_nth)
    finally show ?thesis .
  qed
  from A B show ?thesis by blast
qed

text \<open>
  At 09:10:00 the section Intro, which ends at 09:10:00, is no longer current: the scan
  returns Body.
\<close>

theorem getCurrentSection_first_match_witness:
  "presentationData demoState = Some demoSchedule
   \<and> getCurrentSection 33000000 0 demoState
        = Some \<lparr>cs_name = ''Body'', cs_start = 33000000, cs_end = 34500000\<rparr>
   \<and> (\<exists>i < length (sections demoSchedule). \<exists>a b.
          resolveInterval demoSchedule (sections demoSchedule ! i) 0 = Inr (a, b)
        \<and> a \<le> 33000000 \<and> 33000000 < b
        \<and> \<lparr>cs_name = ''Body'', cs_start = 33000000, cs_end = 34500000\<rparr>
            = \<lparr>cs_name = name (sections demoSchedule ! i), cs_start = a, cs_end = b\<rparr>
        \<and> (\<forall>k < i. \<not> contains demoSchedule 33000000 0 (sections demoSchedule ! k)))"
proof -
  have h: "presentationData demoState = Some demoSchedule"
    by (simp add: demoState_def)
  have e: "getCurrentSection 33000000 0 demoState
             = Some \<lparr>cs_name = ''Body'', cs_start = 33000000, cs_end = 34500000\<rparr>"
    by code_simp
  from getCurrentSection_first_match [OF h, of 33000000 0
         "\<lparr>cs_name = ''Body'', cs_start = 33000000, cs_end = 34500000\<rparr>"] e h
  show ?thesis by blast
qed

subsection \<open>Setting the duration of a section\<close>

text \<open>Recomputation rewrites \<^verbatim>\<open>start\<close> and \<^verbatim>\<open>end\<close> only.\<close>

lemma recalcSections_shape:
  "recalcSections t ss now = (r, ss') \<Longrightarrow>
     length ss' = length ss \<and> map name ss' = map name ss \<and> map duration ss' = map duration ss"
  by (induction ss arbitrary: t r ss') (auto simp: Let_def split: sum.splits prod.splits)




subsection \<open>Setting an invalid start time\<close>

text \<open>What the function does with a start time that \<^verbatim>\<open>parseTime\<close> rejects.\<close>

lemma recalculateTimesFromStart_invalid:
  assumes "presentationData st = Some data" "parseTime newStartTime None now = Inl e"
  shows "recalculateTimesFromStart newStartTime now st =
           st\<lparr>presentationData := Some (data\<lparr>start_time := newStartTime\<rparr>),
              console := console st @ [ErrorRecalculatingTimes e]\<rparr>"
  using assms by (simp add: recalculateTimesFromStart_def consoleError_def)

text \<open>
  Claim C1 says that \<^verbatim>\<open>recalculateTimesFromStart\<close> with a start time that is not a valid
  time of day leaves the whole schedule, start time included, as it was. The function
  stores the new string in \<^verbatim>\<open>start_time\<close> before \<^verbatim>\<open>parseTime\<close> validates it, and the
  \<^verbatim>\<open>catch\<close> only logs: on the example schedule with '25:00:00', and with the empty
  string of a cleared input field, the sections are kept and the start time is replaced
  by the invalid string.
\<close>

theorem recalculateTimesFromStart_keeps_invalid_time:
  "parseTime ''25:00:00'' None 0 = Inl TimeOutOfRange
   \<and> recalculateTimesFromStart ''25:00:00'' 0 demoState =
       \<lparr>presentationData = Some (demoSchedule\<lparr>start_time := ''25:00:00''\<rparr>),
        console = [ErrorRecalculatingTimes TimeOutOfRange]\<rparr>
   \<and> parseTime '''' None 0 = Inl TimeFormatError
   \<and> recalculateTimesFromStart '''' 0 demoState =
       \<lparr>presentationData = Some (demoSchedule\<lparr>start_time := ''''\<rparr>),
        console = [ErrorRecalculatingTimes TimeFormatError]\<rparr>
   \<and> presentationData (recalculateTimesFromStart ''25:00:00'' 0 demoState)
       \<noteq> presentationData demoState"
  by code_simp

subsection \<open>Decoding a section with a bad duration\<close>

text \<open>What decoding does check: a schedule it returns has sections, all of them named.\<close>

lemma deriveSections_named:
  "deriveSections t idx raw now = Inr secs \<Longrightarrow>
     length secs = length raw \<and> (\<forall>s \<in> set secs. name s \<noteq> [])"
proof (induction raw arbitrary: t idx secs)
  case Nil
  then show ?case by simp
next
  case (Cons r rs)
  then show ?case
    by (fastforce simp: Let_def split: if_splits option.splits sum.splits)
qed

lemma parseYAMLData_sections_named:
  assumes "parseYAMLData yamlText now = Inr data"
  shows "sections data \<noteq> [] \<and> (\<forall>s \<in> set (sections data). name s \<noteq> [])"
proof -
  from assms obtain ti st raw t secs where
    raw: "raw \<noteq> []" and
    secs: "deriveSections (At t) 0 raw now = Inr secs" and
    data: "data = \<lparr>title = ti, start_time = st, sections = secs\<rparr>"
    by (auto simp: parseYAMLData_def Let_def split: if_splits sum.splits)
  from deriveSections_named [OF secs] raw data show ?thesis by auto
qed

text \<open>
  Claim C2 says that \<^verbatim>\<open>parseYAMLData\<close> fails for a section whose duration is not a
  positive number. Its second loop tests the duration against \<^verbatim>\<open>undefined\<close> only: a
  duration of 0 and a negative one are returned in a schedule, and so is the \<open>NaN\<close> of a
  duration that is not a number when the section is the last one.
\<close>

theorem parseYAMLData_accepts_bad_duration:
  "parseYAMLData zeroDurationYAML 0 =
     Inr \<lparr>title = ''Presentation Timer'', start_time = ''09:00:00'',
          sections = [\<lparr>name = ''Intro'', duration = Num 0,
                       start = ''09:00:00'', end' = ''09:00:00''\<rparr>]\<rparr>
   \<and> parseYAMLData negativeDurationYAML 0 =
     Inr \<lparr>title = ''Presentation Timer'', start_time = ''09:00:00'',
          sections = [\<lparr>name = ''Intro'', duration = Num (- 5),
                       start = ''09:00:00'', end' = ''08:55:00''\<rparr>]\<rparr>
   \<and> parseYAMLData wordDurationYAML 0 =
     Inr \<lparr>title = ''Presentation Timer'', start_time = ''09:00:00'',
          sections = [\<lparr>name = ''Intro'', duration = NaN,
                       start = ''09:00:00'', end' = ''NaN:NaN:NaN''\<rparr>]\<rparr>"
  by code_simp

subsection \<open>Adjusting the current section\<close>

text \<open>
  Claim C7 says that, once the presentation has started, \<^verbatim>\<open>adjustTimes\<close> changes the
  duration of the section current at now. At 09:17:00 the current section of the example
  is the second Break (09:15:00 to 09:20:00); \<^verbatim>\<open>adjustTimes(1)\<close> looks the section up by
  name and lengthens the first Break (09:00:00 to 09:05:00) instead.
\<close>

theorem adjustTimes_repeated_name:
  "getCurrentSection 33420000 33420000 repeatedNameState
     = Some \<lparr>cs_name = ''Break'', cs_start = 33300000, cs_end = 33600000\<rparr>
   \<and> resolveInterval repeatedNameSchedule (sections repeatedNameSchedule ! 0) 33420000
     = Inr (32400000, 32700000)
   \<and> resolveInterval repeatedNameSchedule (sections repeatedNameSchedule ! 2) 33420000
     = Inr (33300000, 33600000)
   \<and> adjustTimes 1 33420000 repeatedNameState =
       \<lparr>presentationData = Some
          \<lparr>title = ''Workshop'', start_time = ''09:00:00'',
           sections =
             [\<lparr>name = ''Break'', duration = Num 6, start = ''09:00:00'', end' = ''09:06:00''\<rparr>,
              \<lparr>name = ''Talk'', duration = Num 10, start = ''09:06:00'', end' = ''09:16:00''\<rparr>,
              \<lparr>name = ''Break'', duration = Num 5, start = ''09:16:00'', end' = ''09:21:00''\<rparr>]\<rparr>,
        console = []\<rparr>"
  by code_simp

subsection \<open>Times of day: parsing what was formatted\<close>

lemma parseTime_reference:
  "parseTime ts referenceDate now =
     (case parseTime ts None now of
        Inl e \<Rightarrow> Inl e
      | Inr d \<Rightarrow> Inr (rollForward referenceDate d))"
  by (simp add: parseTime_def rollForward_def Let_def
           split: number.splits option.splits jsdate.splits)

lemma startOfDay_0: "startOfDay 0 = 0"
  by (simp add: startOfDay_def)

lemma parseTime_clock:
  "parseTime ts None now =
     (case parseTime ts None 0 of
        Inl e \<Rightarrow> Inl e
      | Inr d \<Rightarrow> Inr (startOfDay now + d))"
  by (simp add: parseTime_def newDate_def startOfDay_0 Let_def
           split: number.splits)

lemma formatTime_shift: "formatTime (At (k * 86400000 + t)) = formatTime (At t)"
proof -
  have a: "(k * 86400000 + t) mod 86400000 = t mod 86400000" by simp
  have "k * 86400000 + t = t + (k * 24) * 3600000" by simp
  then have b: "(k * 86400000 + t) mod 3600000 = t mod 3600000"
    by (simp only: mod_mult_self1)
  have "k * 86400000 + t = t + (k * 1440) * 60000" by simp
  then have c: "(k * 86400000 + t) mod 60000 = t mod 60000"
    by (simp only: mod_mult_self1)
  show ?thesis
    by (simp only: formatTime_def getHours_def getMinutes_def getSeconds_def jsdate.case a b c)
qed

lemma formatTime_startOfDay: "formatTime (At (startOfDay now + t)) = formatTime (At t)"
  unfolding startOfDay_def by (rule formatTime_shift)

lemma two_digits:
  "\<forall>n \<in> set [0..<60].
      parseInt (padStart2 (toString n)) (Some 10) = Num (int n)
    \<and> CHR '':'' \<notin> set (padStart2 (toString n))"
  by code_simp

lemma two_digits_parse:
  "n < 60 \<Longrightarrow> parseInt (padStart2 (toString n)) (Some 10) = Num (int n)"
  using two_digits[THEN bspec, of n] by (simp del: upt_conv_Cons)

lemma two_digits_colon:
  "n < 60 \<Longrightarrow> CHR '':'' \<notin> set (padStart2 (toString n))"
  using two_digits[THEN bspec, of n] by (simp del: upt_conv_Cons)

lemma splitOn_last: "c \<notin> set a \<Longrightarrow> splitOn c a = [a]"
  by (induction a) auto

lemma splitOn_append: "c \<notin> set a \<Longrightarrow> splitOn c (a @ c # rest) = a # splitOn c rest"
  by (induction a) auto

lemma splitOn_three:
  assumes "c \<notin> set p" "c \<notin> set q" "c \<notin> set r"
  shows "splitOn c (p @ [c] @ q @ [c] @ r) = [p, q, r]"
  using assms by (simp add: splitOn_append splitOn_last)

lemma parseTime_hms:
  assumes "h < 24" "m < 60" "s < 60"
  shows "parseTime (padStart2 (toString h) @ '':'' @ padStart2 (toString m) @ '':'' @
                    padStart2 (toString s)) None 0
           = Inr ((int h * 3600 + int m * 60 + int s) * 1000)"
proof -
  have sp: "splitOn CHR '':'' (padStart2 (toString h) @ '':'' @ padStart2 (toString m) @ '':'' @
                    padStart2 (toString s))
             = [padStart2 (toString h), padStart2 (toString m), padStart2 (toString s)]"
    using assms by (intro splitOn_three two_digits_colon) simp_all
  have ph: "parseInt (padStart2 (toString h)) (Some 10) = Num (int h)"
    using assms by (intro two_digits_parse) simp
  have pm: "parseInt (padStart2 (toString m)) (Some 10) = Num (int m)"
    using assms by (intro two_digits_parse) simp
  have ps: "parseInt (padStart2 (toString s)) (Some 10) = Num (int s)"
    using assms by (intro two_digits_parse) simp
  show ?thesis
    unfolding parseTime_def sp using assms
    by (simp add: ph pm ps newDate_def startOfDay_def)
qed

lemma tod_identity:
  fixes t :: int
  shows "(t mod 86400000) div 3600000 * 3600000 + (t mod 3600000) div 60000 * 60000
          + (t mod 60000) div 1000 * 1000 = t mod 86400000 - t mod 1000"
proof -
  define y where "y = t mod 86400000"
  have m1: "t mod 3600000 = y mod 3600000" unfolding y_def by (simp add: mod_mod_cancel)
  have m2: "t mod 60000 = y mod 60000" unfolding y_def by (simp add: mod_mod_cancel)
  have m3: "t mod 1000 = y mod 1000" unfolding y_def by (simp add: mod_mod_cancel)
  have m4: "y mod 3600000 mod 60000 = y mod 60000" by (simp add: mod_mod_cancel)
  have m5: "y mod 60000 mod 1000 = y mod 1000" by (simp add: mod_mod_cancel)
  have e1: "y = y div 3600000 * 3600000 + y mod 3600000" by simp
  have e2: "y mod 3600000 = (y mod 3600000) div 60000 * 60000 + y mod 60000"
    using div_mult_mod_eq[of "y mod 3600000" 60000] m4 by simp
  have e3: "y mod 60000 = (y mod 60000) div 1000 * 1000 + y mod 1000"
    using div_mult_mod_eq[of "y mod 60000" 1000] m5 by simp
  show ?thesis unfolding m1 m2 m3 y_def[symmetric] using e1 e2 e3 by linarith
qed

lemma parseTime_formatTime:
  "parseTime (formatTime (At t)) None 0 = Inr (t mod 86400000 - t mod 1000)"
proof -
  have h: "getHours t < 24" by (simp add: getHours_def)
  have m: "getMinutes t < 60" by (simp add: getMinutes_def)
  have s: "getSeconds t < 60" by (simp add: getSeconds_def)
  have "(int (getHours t) * 3600 + int (getMinutes t) * 60 + int (getSeconds t)) * 1000
          = (t mod 86400000) div 3600000 * 3600000 + (t mod 3600000) div 60000 * 60000
            + (t mod 60000) div 1000 * 1000"
    by (simp add: getHours_def getMinutes_def getSeconds_def)
  then have "(int (getHours t) * 3600 + int (getMinutes t) * 60 + int (getSeconds t)) * 1000
          = t mod 86400000 - t mod 1000"
    by (simp only: tod_identity)
  with parseTime_hms [OF h m s] show ?thesis
    by (simp only: formatTime_def jsdate.case)
qed

lemma formatTime_cong:
  assumes "a mod 86400000 = b mod 86400000"
  shows "formatTime (At a) = formatTime (At b)"
proof -
  have "formatTime (At a) = formatTime (At ((a div 86400000) * 86400000 + a mod 86400000))"
    by simp
  also have "\<dots> = formatTime (At (a mod 86400000))" by (rule formatTime_shift)
  also have "\<dots> = formatTime (At (b mod 86400000))" using assms by simp
  also have "\<dots> = formatTime (At ((b div 86400000) * 86400000 + b mod 86400000))"
    by (rule formatTime_shift [symmetric])
  also have "\<dots> = formatTime (At b)" by simp
  finally show ?thesis .
qed

text \<open>Formatting a whole-second instant and parsing it against itself.\<close>

lemma parseTime_roundtrip:
  assumes "t mod 1000 = 0"
  shows "\<exists>t'. parseTime (formatTime (At t)) (Some (At t)) now = Inr t'
            \<and> t' mod 86400000 = t mod 86400000 \<and> t' mod 1000 = 0"
proof -
  have c: "parseTime (formatTime (At t)) None now = Inr (startOfDay now + t mod 86400000)"
    using assms by (simp add: parseTime_clock [of _ now] parseTime_formatTime)
  let ?d = "startOfDay now + t mod 86400000"
  have d1: "?d mod 86400000 = t mod 86400000" by (simp add: startOfDay_def)
  have "?d = t mod 86400000 + (now div 86400000 * 86400) * 1000"
    by (simp add: startOfDay_def)
  then have "?d mod 1000 = (t mod 86400000) mod 1000"
    by (simp only: mod_mult_self1)
  also have "\<dots> = t mod 1000" by (simp add: mod_mod_cancel)
  finally have d2: "?d mod 1000 = 0" using assms by simp
  have r: "parseTime (formatTime (At t)) (Some (At t)) now = Inr (rollForward (Some (At t)) ?d)"
    by (subst parseTime_reference) (simp add: c)
  have "rollForward (Some (At t)) ?d = ?d \<or> rollForward (Some (At t)) ?d = ?d + 86400000"
    by (simp add: rollForward_def msPerDay_def)
  then show ?thesis
  proof
    assume "rollForward (Some (At t)) ?d = ?d"
    with r d1 d2 show ?thesis by simp
  next
    assume e: "rollForward (Some (At t)) ?d = ?d + 86400000"
    have "(?d + 86400000) mod 86400000 = ?d mod 86400000" by simp
    moreover have "?d + 86400000 = ?d + 86400 * 1000" by simp
    then have "(?d + 86400000) mod 1000 = ?d mod 1000"
      by (simp only: mod_mult_self1)
    ultimately show ?thesis using r e d1 d2 by simp
  qed
qed

lemma derivedFrom_cong:
  "a mod 86400000 = b mod 86400000 \<Longrightarrow> derivedFrom a ss = derivedFrom b ss"
proof (induction ss arbitrary: a b)
  case Nil
  then show ?case by simp
next
  case (Cons s ss)
  show ?case
  proof (cases "duration s")
    case NaN
    then show ?thesis by simp
  next
    case (Num k)
    have e: "(a + k * 60000) mod 86400000 = (b + k * 60000) mod 86400000"
      using Cons.prems by (rule mod_add_cong) simp
    show ?thesis
      using Num formatTime_cong [OF Cons.prems] formatTime_cong [OF e] Cons.IH [OF e]
      by simp
  qed
qed

lemma whole_second_add: "t mod 1000 = 0 \<Longrightarrow> (t + k * 60000) mod 1000 = (0::int)"
proof -
  assume a: "t mod 1000 = 0"
  have "t + k * 60000 = t + (k * 60) * 1000" by simp
  then have "(t + k * 60000) mod 1000 = t mod 1000" by (simp only: mod_mult_self1)
  with a show ?thesis by simp
qed

lemma recalcSections_chain:
  assumes "t mod 1000 = 0" "\<forall>s \<in> set ss. duration s \<noteq> NaN"
  shows "\<exists>ss'. recalcSections (At t) ss now = (None, ss') \<and> derivedFrom t ss'"
  using assms
proof (induction ss arbitrary: t)
  case Nil
  then show ?case by simp
next
  case (Cons s ss)
  have "duration s \<noteq> NaN" using Cons.prems(2) by simp
  then obtain k where k: "duration s = Num k" by (cases "duration s") simp_all
  from parseTime_roundtrip [OF Cons.prems(1), of now] obtain t' where
    t': "parseTime (formatTime (At t)) (Some (At t)) now = Inr t'"
        "t' mod 86400000 = t mod 86400000" "t' mod 1000 = 0" by (elim exE conjE)
  have e: "(t' + k * 60000) mod 86400000 = (t + k * 60000) mod 86400000"
    using t'(2) by (rule mod_add_cong) simp
  have w: "(t' + k * 60000) mod 1000 = 0" using t'(3) by (rule whole_second_add)
  have n: "\<forall>s \<in> set ss. duration s \<noteq> NaN" using Cons.prems(2) by simp
  from Cons.IH [OF w n] obtain ss' where
    ss': "recalcSections (At (t' + k * 60000)) ss now = (None, ss')"
         "derivedFrom (t' + k * 60000) ss'" by (elim exE conjE)
  have d: "derivedFrom (t + k * 60000) ss'"
    using ss'(2) derivedFrom_cong [OF e] by simp
  have f: "formatTime (At (t' + k * 60000)) = formatTime (At (t + k * 60000))"
    by (rule formatTime_cong [OF e])
  have "recalcSections (At t) (s # ss) now =
          (None, s\<lparr>start := formatTime (At t), end' := formatTime (At (t' + k * 60000))\<rparr> # ss')"
    by (simp add: t'(1) k addMinutes_def ss'(1))
  moreover have "derivedFrom t
      (s\<lparr>start := formatTime (At t), end' := formatTime (At (t' + k * 60000))\<rparr> # ss')"
    using k f d by simp
  ultimately show ?case by simp
qed

lemma fields_of_hms:
  fixes h m s :: int
  assumes "0 \<le> h" "h < 24" "0 \<le> m" "m < 60" "0 \<le> s" "s < 60"
  shows "(h * 3600000 + m * 60000 + s * 1000) mod 86400000 div 3600000 = h"
    and "(h * 3600000 + m * 60000 + s * 1000) mod 3600000 div 60000 = m"
    and "(h * 3600000 + m * 60000 + s * 1000) mod 60000 div 1000 = s"
proof -
  let ?c = "h * 3600000 + m * 60000 + s * 1000"
  have r1: "0 \<le> m * 60000 + s * 1000" "m * 60000 + s * 1000 < 3600000"
    using assms by simp_all
  have r0: "0 \<le> ?c" "?c < 86400000" using assms by simp_all
  have "?c mod 86400000 = ?c" using r0 by simp
  moreover have "?c = (m * 60000 + s * 1000) + h * 3600000" by simp
  then have "?c div 3600000 = (m * 60000 + s * 1000) div 3600000 + h"
    by (simp only: div_mult_self1)
  ultimately show "?c mod 86400000 div 3600000 = h" using r1 by simp
  have "?c = (m * 60000 + s * 1000) + h * 3600000" by simp
  then have "?c mod 3600000 = (m * 60000 + s * 1000) mod 3600000"
    by (simp only: mod_mult_self1)
  then have c3: "?c mod 3600000 = m * 60000 + s * 1000" using r1 by simp
  have "(s * 1000 + m * 60000) div 60000 = (s * 1000) div 60000 + m"
    by (simp only: div_mult_self1)
  then show "?c mod 3600000 div 60000 = m" using assms c3 by (simp add: add.commute)
  have "?c = s * 1000 + (h * 60 + m) * 60000" by simp
  then have "?c mod 60000 = (s * 1000) mod 60000" by (simp only: mod_mult_self1)
  then show "?c mod 60000 div 1000 = s" using assms by simp
qed

lemma formatTime_truncate:
  "formatTime (At (t mod 86400000 - t mod 1000)) = formatTime (At t)"
proof -
  let ?h = "(t mod 86400000) div 3600000"
  let ?m = "(t mod 3600000) div 60000"
  let ?s = "(t mod 60000) div 1000"
  have b: "0 \<le> ?h" "?h < 24" "0 \<le> ?m" "?m < 60" "0 \<le> ?s" "?s < 60" by simp_all
  have c: "t mod 86400000 - t mod 1000 = ?h * 3600000 + ?m * 60000 + ?s * 1000"
    by (simp only: tod_identity)
  show ?thesis
    by (simp only: formatTime_def jsdate.case getHours_def getMinutes_def getSeconds_def c
          fields_of_hms [OF b])
qed

lemma hms_range:
  fixes h m s :: int
  assumes "\<not> h < 0" "\<not> 23 < h" "\<not> m < 0" "\<not> 59 < m" "\<not> s < 0" "\<not> 59 < s"
  shows "0 \<le> (h * 3600 + m * 60 + s) * 1000
       \<and> (h * 3600 + m * 60 + s) * 1000 < 86400000
       \<and> ((h * 3600 + m * 60 + s) * 1000) mod 1000 = 0"
  using assms by simp

lemma parseTime_zero_range:
  assumes "parseTime ts None 0 = Inr c"
  shows "0 \<le> c \<and> c < 86400000 \<and> c mod 1000 = 0"
proof -
  define ph where "ph = parseInt (splitOn CHR '':'' ts ! 0) (Some 10)"
  define pm where "pm = parseInt (splitOn CHR '':'' ts ! 1) (Some 10)"
  define ps where "ps = parseInt (splitOn CHR '':'' ts ! 2) (Some 10)"
  have eq: "parseTime ts None 0 =
     (if length (splitOn CHR '':'' ts) \<noteq> 3 then Inl TimeFormatError
      else case (ph, pm, ps) of
          (Num hours, Num minutes, Num seconds) \<Rightarrow>
            if hours < 0 \<or> hours > 23 \<or> minutes < 0 \<or> minutes > 59
               \<or> seconds < 0 \<or> seconds > 59
            then Inl TimeOutOfRange
            else Inr ((hours * 3600 + minutes * 60 + seconds) * 1000)
        | _ \<Rightarrow> Inl InvalidTimeComponents)"
    unfolding parseTime_def ph_def pm_def ps_def Let_def newDate_def startOfDay_0
    by (simp split: number.splits)
  show ?thesis
  proof (cases ph)
    case NaN
    then show ?thesis using assms eq by (simp split: if_splits)
  next
    case h: (Num h)
    show ?thesis
    proof (cases pm)
      case NaN
      then show ?thesis using assms eq h by (simp split: if_splits)
    next
      case m: (Num m)
      show ?thesis
      proof (cases ps)
        case NaN
        then show ?thesis using assms eq h m by (simp split: if_splits)
      next
        case s: (Num s)
        from assms eq h m s have
          r: "\<not> h < 0" "\<not> 23 < h" "\<not> m < 0" "\<not> 59 < m" "\<not> s < 0" "\<not> 59 < s"
          and c: "c = (h * 3600 + m * 60 + s) * 1000"
          by (simp_all split: if_splits)
        show ?thesis unfolding c by (rule hms_range [OF r])
      qed
    qed
  qed
qed

lemma clockTime_formatTime:
  "t mod 1000 = 0 \<Longrightarrow> clockTime (formatTime (At t)) = Inr (t mod 86400000)"
  by (simp add: clockTime_def parseTime_formatTime)

lemma derivedFrom_adjacent: "derivedFrom x ss \<Longrightarrow> adjacent ss"
proof (induction ss arbitrary: x rule: adjacent.induct)
  case (1 s s' rest)
  then show ?case by (auto split: number.splits)
qed simp_all

lemma derivedFrom_ends:
  "x mod 1000 = 0 \<Longrightarrow> derivedFrom x ss \<Longrightarrow> list_all endsAfterDuration ss"
proof (induction ss arbitrary: x)
  case Nil
  then show ?case by simp
next
  case (Cons s ss)
  from Cons.prems(2) obtain k where k: "duration s = Num k"
    by (cases "duration s") simp_all
  from Cons.prems(2) k have
    f: "start s = formatTime (At x)" "end' s = formatTime (At (x + k * 60000))"
       "derivedFrom (x + k * 60000) ss" by simp_all
  have w: "(x + k * 60000) mod 1000 = 0" using Cons.prems(1) by (rule whole_second_add)
  have "(x mod 86400000 + k * 60000) mod 86400000 = (x + k * 60000) mod 86400000"
    by (rule mod_add_left_eq)
  then have "endsAfterDuration s"
    by (simp add: endsAfterDuration_def k f clockTime_formatTime [OF Cons.prems(1)]
          clockTime_formatTime [OF w])
  with Cons.IH [OF w f(3)] show ?case by simp
qed

lemma derivedFrom_startsAt:
  assumes "parseTime st None now = Inr t" "derivedFrom t ss" "ss \<noteq> []"
  shows "startsAt st ss \<and> t mod 1000 = 0"
proof -
  from assms(1) obtain c where c: "parseTime st None 0 = Inr c" and t: "t = startOfDay now + c"
    by (subst (asm) parseTime_clock) (auto split: sum.splits)
  from parseTime_zero_range [OF c] have r: "0 \<le> c" "c < 86400000" "c mod 1000 = 0"
    by simp_all
  from assms(3) obtain s rest where ss: "ss = s # rest" by (cases ss) simp_all
  from assms(2) ss have "start s = formatTime (At t)" by (simp split: number.splits)
  then have s: "start s = formatTime (At c)" by (simp add: t formatTime_startOfDay)
  have "c mod 86400000 = c" using r by simp
  then have "clockTime (start s) = Inr c"
    by (simp add: s clockTime_formatTime [OF r(3)])
  then have "startsAt st ss" by (simp add: startsAt_def ss clockTime_def c s)
  moreover have "t = c + (now div 86400000 * 86400) * 1000" by (simp add: t startOfDay_def)
  then have "t mod 1000 = c mod 1000" by (simp only: mod_mult_self1)
  ultimately show ?thesis using r(3) by simp
qed

lemma parseTime_whole_second:
  assumes "parseTime st None now = Inr t"
  shows "t mod 1000 = 0"
proof -
  from assms obtain c where c: "parseTime st None 0 = Inr c" and t: "t = startOfDay now + c"
    by (subst (asm) parseTime_clock) (auto split: sum.splits)
  from parseTime_zero_range [OF c] have r: "c mod 1000 = 0" by simp
  have "t = c + (now div 86400000 * 86400) * 1000" by (simp add: t startOfDay_def)
  then have "t mod 1000 = c mod 1000" by (simp only: mod_mult_self1)
  with r show ?thesis by simp
qed

lemma derivedFrom_chained:
  assumes "parseTime st None now = Inr t" "derivedFrom t ss" "ss \<noteq> []"
  shows "chained \<lparr>title = ti, start_time = st, sections = ss\<rparr>"
  using derivedFrom_startsAt [OF assms] derivedFrom_adjacent [OF assms(2)]
        derivedFrom_ends [OF parseTime_whole_second [OF assms(1)] assms(2)]
  by (simp add: chained_def)

lemma deriveSections_chain:
  assumes "t mod 1000 = 0" "deriveSections (At t) idx raw now = Inr secs"
    "\<forall>s \<in> set secs. duration s \<noteq> NaN"
  shows "derivedFrom t secs \<and> length secs = length raw"
  using assms
proof (induction raw arbitrary: t idx secs)
  case Nil
  then show ?case by simp
next
  case (Cons r rs)
  from parseTime_roundtrip [OF Cons.prems(1), of now] obtain t' where
    t': "parseTime (formatTime (At t)) (Some (At t)) now = Inr t'"
        "t' mod 86400000 = t mod 86400000" "t' mod 1000 = 0" by (elim exE conjE)
  from Cons.prems(2) obtain d rest where
    d: "raw_duration r = Some d" and
    rest: "deriveSections (addMinutes (At t') d) (Suc idx) rs now = Inr rest" and
    secs: "secs = \<lparr>name = raw_name r, duration = d, start = formatTime (At t),
                     end' = formatTime (addMinutes (At t') d)\<rparr> # rest"
    by (auto simp: t'(1) Let_def split: if_splits option.splits sum.splits)
  from Cons.prems(3) secs obtain k where k: "d = Num k" by (cases d) simp_all
  have e: "(t' + k * 60000) mod 86400000 = (t + k * 60000) mod 86400000"
    using t'(2) by (rule mod_add_cong) simp
  have w: "(t' + k * 60000) mod 1000 = 0" using t'(3) by (rule whole_second_add)
  have n: "\<forall>s \<in> set rest. duration s \<noteq> NaN" using Cons.prems(3) secs by simp
  from rest k have rest': "deriveSections (At (t' + k * 60000)) (Suc idx) rs now = Inr rest"
    by (simp add: addMinutes_def)
  from Cons.IH [OF w rest' n] have ih: "derivedFrom (t' + k * 60000) rest"
    and len: "length rest = length rs" by simp_all
  have dd: "derivedFrom (t + k * 60000) rest"
    using ih derivedFrom_cong [OF e] by simp
  have f: "formatTime (At (t' + k * 60000)) = formatTime (At (t + k * 60000))"
    by (rule formatTime_cong [OF e])
  show ?case using secs k dd f len by (simp add: addMinutes_def)
qed

lemma parseYAMLData_chained:
  assumes "parseYAMLData yamlText now = Inr data"
    "\<forall>s \<in> set (sections data). duration s \<noteq> NaN"
  shows "chained data"
proof -
  from assms(1) obtain ti st raw t secs where
    raw: "raw \<noteq> []" and t: "parseTime st None now = Inr t" and
    secs: "deriveSections (At t) 0 raw now = Inr secs" and
    data: "data = \<lparr>title = ti, start_time = st, sections = secs\<rparr>"
    by (auto simp: parseYAMLData_def Let_def split: if_splits sum.splits)
  from assms(2) data have n: "\<forall>s \<in> set secs. duration s \<noteq> NaN" by simp
  from deriveSections_chain [OF parseTime_whole_second [OF t] secs n]
  have d: "derivedFrom t secs" and l: "length secs = length raw" by simp_all
  from l raw have "secs \<noteq> []" by auto
  from derivedFrom_chained [OF t d this, of ti] data show ?thesis by simp
qed

lemma startOfDay_bounds: "startOfDay t \<le> t \<and> t < startOfDay t + 86400000"
proof -
  have "t = t div 86400000 * 86400000 + t mod 86400000" by simp
  moreover have "0 \<le> t mod 86400000" "t mod 86400000 < 86400000" by simp_all
  ultimately show ?thesis unfolding startOfDay_def by linarith
qed

lemma parseTime_today:
  assumes "parseTime ts None now = Inr d"
  shows "startOfDay now \<le> d \<and> d < startOfDay now + 86400000 \<and> dayOf d = dayOf now"
proof -
  from assms obtain c where c: "parseTime ts None 0 = Inr c" and d: "d = startOfDay now + c"
    by (subst (asm) parseTime_clock) (auto split: sum.splits)
  from parseTime_zero_range [OF c] have r: "0 \<le> c" "c < 86400000" by simp_all
  have "d = c + (now div 86400000) * 86400000" by (simp add: d startOfDay_def)
  then have "d div 86400000 = now div 86400000 + c div 86400000"
    by (simp only: div_mult_self1)
  then have "dayOf d = dayOf now" using r by (simp add: dayOf_def)
  then show ?thesis using r d by simp
qed

subsection \<open>The invariant that recomputation establishes\<close>

lemma adjacent_nth:
  "adjacent ss \<Longrightarrow> Suc i < length ss \<Longrightarrow> end' (ss ! i) = start (ss ! Suc i)"
proof (induction ss arbitrary: i rule: adjacent.induct)
  case (1 s s' rest)
  then show ?case by (cases i) simp_all
qed simp_all

lemma endsAfterDuration_unfold:
  "endsAfterDuration s \<Longrightarrow>
     \<exists>a k. duration s = Num k \<and> clockTime (start s) = Inr a
         \<and> clockTime (end' s) = Inr ((a + k * 60000) mod 86400000)"
  by (simp add: endsAfterDuration_def split: number.splits sum.splits)

lemma startsAt_unfold:
  assumes "startsAt st ss"
  shows "ss \<noteq> [] \<and> clockTime (start (ss ! 0)) = clockTime st
          \<and> ((\<exists>x. st = formatTime (At x)) \<longrightarrow> start (ss ! 0) = st)"
proof -
  from assms obtain s rest c where ss: "ss = s # rest" and c: "clockTime st = Inr c"
    and s: "start s = formatTime (At c)" and cs: "clockTime (start s) = Inr c"
    by (auto simp: startsAt_def split: list.splits sum.splits)
  have "start s = st" if "st = formatTime (At x)" for x
  proof -
    from c that have "c = x mod 86400000 - x mod 1000"
      by (simp add: clockTime_def parseTime_formatTime)
    then show ?thesis using s that by (simp only: formatTime_truncate)
  qed
  then show ?thesis using ss c cs by auto
qed

text \<open>What the two loops keep, and the dates on which \<open>addMinutes\<close> is \<^verbatim>\<open>setMinutes\<close>.\<close>

lemma withinDateRange_numeric: "withinDateRange now d \<Longrightarrow> d \<noteq> NaN"
  by (cases d) (simp_all add: withinDateRange_def)

lemma parseTime_two_days:
  assumes "parseTime ts referenceDate now = Inr t"
  shows "startOfDay now \<le> t \<and> t < startOfDay now + 2 * 86400000"
proof -
  from assms obtain d where d: "parseTime ts None now = Inr d"
    and t: "t = rollForward referenceDate d"
    by (subst (asm) parseTime_reference) (auto split: sum.splits)
  from parseTime_today [OF d] have r: "startOfDay now \<le> d" "d < startOfDay now + 86400000"
    by simp_all
  have "rollForward referenceDate d = d \<or> rollForward referenceDate d = d + 86400000"
    by (simp add: rollForward_def msPerDay_def split: option.splits jsdate.splits)
  then show ?thesis using r t by (elim disjE) simp_all
qed

lemma setMinutes_agrees:
  assumes "parseTime ts referenceDate now = Inr t" "withinDateRange now (Num k)"
    "zone (t + k * 60000) = t + k * 60000"
  shows "inDateRange t \<and> setMinutes zone (At t) (Num k) = addMinutes (At t) (Num k)"
proof -
  note p = parseTime_two_days [OF assms(1)]
  note b = startOfDay_bounds [of now]
  from assms(2) have w: "\<bar>now\<bar> + 2 * 86400000 + \<bar>k\<bar> * 60000 \<le> 8640000000000000"
    by (simp add: withinDateRange_def)
  have k: "0 \<le> \<bar>k\<bar> * 60000" by simp
  have t: "\<bar>t\<bar> \<le> \<bar>now\<bar> + 2 * 86400000" using p b by linarith
  have "\<bar>k * 60000\<bar> = \<bar>k\<bar> * 60000" by (simp add: abs_mult)
  then have "\<bar>t + k * 60000\<bar> \<le> \<bar>t\<bar> + \<bar>k\<bar> * 60000"
    using abs_triangle_ineq [of t "k * 60000"] by simp
  then have r: "\<bar>t + k * 60000\<bar> \<le> 8640000000000000" using t w by linarith
  have r0: "\<bar>t\<bar> \<le> 8640000000000000" using t w k by linarith
  from r have "inDateRange (t + k * 60000)" unfolding inDateRange_def by linarith
  moreover from r0 have "inDateRange t" unfolding inDateRange_def by linarith
  ultimately show ?thesis by (simp add: setMinutes_def addMinutes_def assms(3))
qed


lemma deriveSections_fields:
  "deriveSections t idx raw now = Inr secs \<Longrightarrow>
     map name secs = map raw_name raw
     \<and> map (\<lambda>s. Some (duration s)) secs = map raw_duration raw"
proof (induction raw arbitrary: t idx secs)
  case Nil
  then show ?case by simp
next
  case (Cons r rs)
  then show ?case
    by (fastforce simp: Let_def split: if_splits option.splits sum.splits)
qed

lemma recalculate_derived:
  assumes "presentationData st = Some data"
    "\<forall>s \<in> set (sections data). duration s \<noteq> NaN"
    "parseTime newStartTime None now = Inr t"
  shows "\<exists>secs. recalculateTimesFromStart newStartTime now st
                   = st\<lparr>presentationData :=
                         Some (data\<lparr>start_time := newStartTime, sections := secs\<rparr>)\<rparr>
            \<and> map name secs = map name (sections data)
            \<and> map duration secs = map duration (sections data)
            \<and> derivedFrom t secs"
proof -
  from recalcSections_chain [OF parseTime_whole_second [OF assms(3)] assms(2), of now]
  obtain ss' where r: "recalcSections (At t) (sections data) now = (None, ss')"
    and d: "derivedFrom t ss'" by (elim exE conjE)
  note sh = recalcSections_shape [OF r]
  have "recalculateTimesFromStart newStartTime now st
          = st\<lparr>presentationData := Some (data\<lparr>start_time := newStartTime, sections := ss'\<rparr>)\<rparr>"
    by (simp add: recalculateTimesFromStart_def assms(1,3) r)
  with sh d show ?thesis by (intro exI [of _ ss']) simp
qed

lemma parseYAMLData_derived:
  assumes "parseYAMLData yamlText now = Inr decoded"
  shows "map name (sections decoded) = map raw_name (raw_sections (readLines yamlText))
       \<and> map (\<lambda>s. Some (duration s)) (sections decoded)
           = map raw_duration (raw_sections (readLines yamlText))
       \<and> ((\<forall>s \<in> set (sections decoded). duration s \<noteq> NaN) \<longrightarrow>
            (\<exists>t. parseTime (start_time decoded) None now = Inr t
                \<and> derivedFrom t (sections decoded)))"
proof -
  from assms obtain ti st t secs where
    t: "parseTime st None now = Inr t" and
    secs: "deriveSections (At t) 0 (raw_sections (readLines yamlText)) now = Inr secs" and
    data: "decoded = \<lparr>title = ti, start_time = st, sections = secs\<rparr>"
    by (auto simp: parseYAMLData_def readLines_def Let_def split: if_splits sum.splits)
  note f = deriveSections_fields [OF secs]
  have "derivedFrom t secs" if "\<forall>s \<in> set secs. duration s \<noteq> NaN"
    using deriveSections_chain [OF parseTime_whole_second [OF t] secs that] by simp
  then show ?thesis using f t data by auto
qed

text \<open>
  Claim C3 says that for every schedule with a valid start time and at least one section
  recomputation leaves each end equal to its start plus the duration. A duration can be
  \<open>NaN\<close>. With \<open>NaN\<close> in the first section of the example, recomputation from 10:00:00
  stops with an error at the second section, whose start is then 'NaN:NaN:NaN' while its
  end is still 09:35:00. The schedule that \<^verbatim>\<open>parseYAMLData\<close> returns for the duration
  "ten" has the end 'NaN:NaN:NaN', which is no time of day, and recomputing it changes
  nothing.
\<close>

theorem recompute_nan_duration_counterexample:
  "parseTime ''10:00:00'' None 0 = Inr 36000000
   \<and> sections nanFirstSchedule \<noteq> []
   \<and> recalculateTimesFromStart ''10:00:00'' 0
        \<lparr>presentationData = Some nanFirstSchedule, console = []\<rparr>
       = \<lparr>presentationData = Some
            \<lparr>title = ''Demo'', start_time = ''10:00:00'',
             sections =
               [\<lparr>name = ''Intro'', duration = NaN,
                 start = ''10:00:00'', end' = ''NaN:NaN:NaN''\<rparr>,
                \<lparr>name = ''Body'', duration = Num 25,
                 start = ''NaN:NaN:NaN'', end' = ''09:35:00''\<rparr>,
                \<lparr>name = ''QA'', duration = Num 15,
                 start = ''09:35:00'', end' = ''09:50:00''\<rparr>]\<rparr>,
          console = [ErrorRecalculatingTimes InvalidTimeComponents]\<rparr>
   \<and> clockTime ''NaN:NaN:NaN'' = Inl InvalidTimeComponents
   \<and> \<not> endsAfterDuration
          \<lparr>name = ''Body'', duration = Num 25, start = ''NaN:NaN:NaN'', end' = ''09:35:00''\<rparr>
   \<and> parseYAMLData wordDurationYAML 0 =
        Inr \<lparr>title = ''Presentation Timer'', start_time = ''09:00:00'',
             sections = [\<lparr>name = ''Intro'', duration = NaN,
                          start = ''09:00:00'', end' = ''NaN:NaN:NaN''\<rparr>]\<rparr>
   \<and> recalculateTimesFromStart ''09:00:00'' 0
        \<lparr>presentationData = Some
           \<lparr>title = ''Presentation Timer'', start_time = ''09:00:00'',
            sections = [\<lparr>name = ''Intro'', duration = NaN,
                         start = ''09:00:00'', end' = ''NaN:NaN:NaN''\<rparr>]\<rparr>,
         console = []\<rparr>
       = \<lparr>presentationData = Some
           \<lparr>title = ''Presentation Timer'', start_time = ''09:00:00'',
            sections = [\<lparr>name = ''Intro'', duration = NaN,
                         start = ''09:00:00'', end' = ''NaN:NaN:NaN''\<rparr>]\<rparr>,
          console = []\<rparr>
   \<and> \<not> chained
          \<lparr>title = ''Presentation Timer'', start_time = ''09:00:00'',
           sections = [\<lparr>name = ''Intro'', duration = NaN,
                        start = ''09:00:00'', end' = ''NaN:NaN:NaN''\<rparr>]\<rparr>"
  by code_simp

text \<open>
  Claim C3 as amended. Take local time to run uniformly (no daylight-saving transition),
  a start time that \<^verbatim>\<open>parseTime\<close> accepts, at least one section, and durations that are
  numbers within the range of \<^verbatim>\<open>Date\<close> from the clock. Then
  \<^verbatim>\<open>recalculateTimesFromStart\<close> reports no error, stores the start time, keeps the
  title and every name and duration, and writes the derived fields of the specification:
  the first section starts at the start time, each section ends its duration in minutes
  after its start, and the next one starts there. \<^verbatim>\<open>parseYAMLData\<close> does the same for
  the names and durations it reads from the lines. So the derived fields are chained:
  the first section's start is the schedule's start time (the same time of day, and the
  same string whenever the start time is written as HH:MM:SS), each section's end is the
  next section's start, and each end is the section's start plus its duration in minutes
  (times of day, so modulo 24 hours). The last part states the two assumptions on the
  dates that the loops hand to \<^verbatim>\<open>setMinutes\<close>, which are the dates \<^verbatim>\<open>parseTime\<close>
  returns: under the bound on the duration the date and the result are in range, and
  where the zone does not move the result \<^verbatim>\<open>setMinutes\<close> is the addition of the model.
\<close>

theorem recompute_chains_numeric_schedule:
  "(presentationData st = Some data \<and> sections data \<noteq> []
      \<and> (\<forall>s \<in> set (sections data). withinDateRange now (duration s))
      \<and> parseTime newStartTime None now = Inr t
     \<longrightarrow> (\<exists>secs. recalculateTimesFromStart newStartTime now st
                   = st\<lparr>presentationData :=
                         Some (data\<lparr>start_time := newStartTime, sections := secs\<rparr>)\<rparr>
            \<and> map name secs = map name (sections data)
            \<and> map duration secs = map duration (sections data)
            \<and> derivedFrom t secs
            \<and> chained (data\<lparr>start_time := newStartTime, sections := secs\<rparr>)))
   \<and> (parseYAMLData yamlText now = Inr decoded
      \<and> (\<forall>s \<in> set (sections decoded). withinDateRange now (duration s))
     \<longrightarrow> map name (sections decoded) = map raw_name (raw_sections (readLines yamlText))
       \<and> map (\<lambda>s. Some (duration s)) (sections decoded)
           = map raw_duration (raw_sections (readLines yamlText))
       \<and> (\<exists>t'. parseTime (start_time decoded) None now = Inr t'
                \<and> derivedFrom t' (sections decoded))
       \<and> chained decoded)
   \<and> (chained d
     \<longrightarrow> sections d \<noteq> []
       \<and> clockTime (start (sections d ! 0)) = clockTime (start_time d)
       \<and> ((\<exists>x. start_time d = formatTime (At x)) \<longrightarrow> start (sections d ! 0) = start_time d)
       \<and> (\<forall>i. Suc i < length (sections d)
              \<longrightarrow> end' (sections d ! i) = start (sections d ! Suc i))
       \<and> (\<forall>i < length (sections d). \<exists>a k.
              duration (sections d ! i) = Num k
            \<and> clockTime (start (sections d ! i)) = Inr a
            \<and> clockTime (end' (sections d ! i)) = Inr ((a + k * 60000) mod 86400000)))
   \<and> (parseTime timeString referenceDate now = Inr u \<and> withinDateRange now (Num m)
      \<and> zone (u + m * 60000) = u + m * 60000
     \<longrightarrow> inDateRange u \<and> setMinutes zone (At u) (Num m) = addMinutes (At u) (Num m))"
proof (intro conjI impI)
  assume a: "presentationData st = Some data \<and> sections data \<noteq> []
      \<and> (\<forall>s \<in> set (sections data). withinDateRange now (duration s))
      \<and> parseTime newStartTime None now = Inr t"
  then have n: "\<forall>s \<in> set (sections data). duration s \<noteq> NaN"
    using withinDateRange_numeric by blast
  from a have p: "presentationData st = Some data" and ne: "sections data \<noteq> []"
    and t: "parseTime newStartTime None now = Inr t" by simp_all
  from recalculate_derived [OF p n t] obtain secs where
    r: "recalculateTimesFromStart newStartTime now st
          = st\<lparr>presentationData :=
                Some (data\<lparr>start_time := newStartTime, sections := secs\<rparr>)\<rparr>"
    and m: "map name secs = map name (sections data)"
    and d: "map duration secs = map duration (sections data)"
    and c: "derivedFrom t secs" by (elim exE conjE)
  from m ne have "secs \<noteq> []" by auto
  from derivedFrom_chained [OF t c this, of "title data"]
  have "chained (data\<lparr>start_time := newStartTime, sections := secs\<rparr>)"
    by (simp add: chained_def)
  with r m d c show "\<exists>secs. recalculateTimesFromStart newStartTime now st
                   = st\<lparr>presentationData :=
                         Some (data\<lparr>start_time := newStartTime, sections := secs\<rparr>)\<rparr>
            \<and> map name secs = map name (sections data)
            \<and> map duration secs = map duration (sections data)
            \<and> derivedFrom t secs
            \<and> chained (data\<lparr>start_time := newStartTime, sections := secs\<rparr>)"
    by (intro exI [of _ secs] conjI)
next
  assume a: "parseYAMLData yamlText now = Inr decoded
      \<and> (\<forall>s \<in> set (sections decoded). withinDateRange now (duration s))"
  then have n: "\<forall>s \<in> set (sections decoded). duration s \<noteq> NaN"
    using withinDateRange_numeric by blast
  from a have p: "parseYAMLData yamlText now = Inr decoded" by simp
  note f = parseYAMLData_derived [OF p]
  show "map name (sections decoded) = map raw_name (raw_sections (readLines yamlText))"
    using f by (rule conjunct1)
  show "map (\<lambda>s. Some (duration s)) (sections decoded)
           = map raw_duration (raw_sections (readLines yamlText))"
    using f by (elim conjE)
  show "\<exists>t'. parseTime (start_time decoded) None now = Inr t'
                \<and> derivedFrom t' (sections decoded)"
    using f n by (elim conjE) (erule mp)
  show "chained decoded" using parseYAMLData_chained [OF p n] .
next
  assume c: "chained d"
  then have sa: "startsAt (start_time d) (sections d)" and ad: "adjacent (sections d)"
    and en: "list_all endsAfterDuration (sections d)" by (simp_all add: chained_def)
  from startsAt_unfold [OF sa] show "sections d \<noteq> []"
    and "clockTime (start (sections d ! 0)) = clockTime (start_time d)"
    and "(\<exists>x. start_time d = formatTime (At x)) \<Longrightarrow> start (sections d ! 0) = start_time d"
    by simp_all
  show "\<forall>i. Suc i < length (sections d)
              \<longrightarrow> end' (sections d ! i) = start (sections d ! Suc i)"
    using adjacent_nth [OF ad] by simp
  show "\<forall>i < length (sections d). \<exists>a k.
              duration (sections d ! i) = Num k
            \<and> clockTime (start (sections d ! i)) = Inr a
            \<and> clockTime (end' (sections d ! i)) = Inr ((a + k * 60000) mod 86400000)"
    using en endsAfterDuration_unfold by (simp add: list_all_length)
next
  assume "parseTime timeString referenceDate now = Inr u \<and> withinDateRange now (Num m)
      \<and> zone (u + m * 60000) = u + m * 60000"
  then have "inDateRange u \<and> setMinutes zone (At u) (Num m) = addMinutes (At u) (Num m)"
    using setMinutes_agrees [of timeString referenceDate now u m zone] by simp
  then show "inDateRange u" and "setMinutes zone (At u) (Num m) = addMinutes (At u) (Num m)"
    by simp_all
qed

theorem recompute_chains_numeric_schedule_witness:
  "presentationData demoState = Some demoSchedule
   \<and> sections demoSchedule \<noteq> []
   \<and> list_all (\<lambda>s. withinDateRange 0 (duration s)) (sections demoSchedule)
   \<and> parseTime ''10:30:00'' None 0 = Inr 37800000
   \<and> parseYAMLData demoYAML 0 = Inr demoSchedule
   \<and> (\<exists>secs. recalculateTimesFromStart ''10:30:00'' 0 demoState
                = demoState\<lparr>presentationData :=
                      Some (demoSchedule\<lparr>start_time := ''10:30:00'', sections := secs\<rparr>)\<rparr>
          \<and> map name secs = map name (sections demoSchedule)
          \<and> map duration secs = map duration (sections demoSchedule)
          \<and> derivedFrom 37800000 secs
          \<and> chained (demoSchedule\<lparr>start_time := ''10:30:00'', sections := secs\<rparr>))
   \<and> map name (sections demoSchedule) = map raw_name (raw_sections (readLines demoYAML))
   \<and> chained demoSchedule
   \<and> start (sections demoSchedule ! 0) = start_time demoSchedule
   \<and> end' (sections demoSchedule ! 0) = start (sections demoSchedule ! Suc 0)
   \<and> end' (sections demoSchedule ! Suc 0) = start (sections demoSchedule ! Suc (Suc 0))
   \<and> withinDateRange 0 (Num 25)
   \<and> setMinutes (\<lambda>t. t) (At 37800000) (Num 25) = addMinutes (At 37800000) (Num 25)"
proof -
  have h1: "presentationData demoState = Some demoSchedule" by (simp add: demoState_def)
  have h2: "sections demoSchedule \<noteq> []" by (simp add: demoSchedule_def)
  have h3: "list_all (\<lambda>s. withinDateRange 0 (duration s)) (sections demoSchedule)"
    by code_simp
  then have h3': "\<forall>s \<in> set (sections demoSchedule). withinDateRange 0 (duration s)"
    by (simp only: list_all_iff)
  have h4: "parseTime ''10:30:00'' None 0 = Inr 37800000" by code_simp
  have h5: "parseYAMLData demoYAML 0 = Inr demoSchedule" by code_simp
  have h6: "start_time demoSchedule = formatTime (At 32400000)" by code_simp
  have h8: "withinDateRange 0 (Num 25)" by code_simp
  note T = recompute_chains_numeric_schedule [where st = demoState and data = demoSchedule
      and newStartTime = "''10:30:00''" and now = 0 and t = 37800000 and yamlText = demoYAML
      and decoded = demoSchedule and d = demoSchedule and timeString = "''10:30:00''"
      and referenceDate = None and u = 37800000 and m = 25 and zone = "\<lambda>t. t"]
  note A = T [THEN conjunct1, THEN mp, OF conjI [OF h1 conjI [OF h2 conjI [OF h3' h4]]]]
  note B = T [THEN conjunct2, THEN conjunct1, THEN mp, OF conjI [OF h5 h3']]
  note B1 = B [THEN conjunct1]
  note B4 = B [THEN conjunct2, THEN conjunct2, THEN conjunct2]
  note C = T [THEN conjunct2, THEN conjunct2, THEN conjunct1, THEN mp, OF B4]
  have D: "start (sections demoSchedule ! 0) = start_time demoSchedule"
    by (rule C [THEN conjunct2, THEN conjunct2, THEN conjunct1, THEN mp]) (rule exI, rule h6)
  note E = C [THEN conjunct2, THEN conjunct2, THEN conjunct2, THEN conjunct1, THEN spec, THEN mp]
  have l: "length (sections demoSchedule) = 3" by (simp add: demoSchedule_def)
  have E0: "end' (sections demoSchedule ! 0) = start (sections demoSchedule ! Suc 0)"
    by (rule E) (simp add: l)
  have E1: "end' (sections demoSchedule ! Suc 0) = start (sections demoSchedule ! Suc (Suc 0))"
    by (rule E) (simp add: l)
  note F = T [THEN conjunct2, THEN conjunct2, THEN conjunct2, THEN mp,
              OF conjI [OF h4 conjI [OF h8 refl]], THEN conjunct2]
  from h1 h2 h3 h4 h5 A B1 B4 D E0 E1 h8 F show ?thesis by (intro conjI)
qed

subsection \<open>Resolving a time of day against a reference\<close>

text \<open>
  Claim C4 says that \<^verbatim>\<open>parseTime\<close> with a reference puts the time of day on the calendar
  day of the reference and rolls it to the next day exactly when it would otherwise be
  strictly earlier than the reference. \<^verbatim>\<open>parseTime\<close> takes the calendar day of the clock
  instead. With the clock at 23:30:00 of day 0, the second section of the overnight
  schedule starts at 00:30:00 of day 1; its end 00:20:00 is resolved against that start to
  00:20:00 of day 1, which is earlier than the reference, where the claim gives 00:20:00
  of day 2.
\<close>

theorem parseTime_reference_day_counterexample:
  "parseTime ''00:20:00'' (Some (At 88200000)) 84600000 = Inr 87600000
   \<and> dayOf 84600000 = 0 \<and> dayOf 88200000 = 1 \<and> dayOf 87600000 = 1
   \<and> (87600000 :: int) < 88200000
   \<and> resolveOnReferenceDay 1200000 88200000 = 174000000
   \<and> parseTime ''00:20:00'' (Some (At 88200000)) 84600000
        \<noteq> Inr (resolveOnReferenceDay 1200000 88200000)
   \<and> recalculateTimesFromStart ''23:00:00'' 84600000
        \<lparr>presentationData = Some overnightSchedule, console = []\<rparr>
        = \<lparr>presentationData = Some overnightSchedule, console = []\<rparr>
   \<and> resolveInterval overnightSchedule (sections overnightSchedule ! 1) 84600000
        = Inr (88200000, 87600000)"
  by code_simp

lemma startOfDay_same: "dayOf r = dayOf now \<Longrightarrow> startOfDay r = startOfDay now"
  by (simp add: dayOf_def startOfDay_def)

text \<open>
  Claim C4 as amended. A valid time of day is resolved on the calendar day of the clock
  (today, as the docstring of \<^verbatim>\<open>parseTime\<close> says) and is rolled forward by one day
  exactly when that instant is strictly earlier than the reference. When the reference
  lies on the clock's calendar day this is the resolution on the reference's day, and the
  result is not earlier than the reference. A section that starts at 23:50:00 and lasts
  20 minutes gets the end 00:10:00, which resolves to the calendar day after its start.
\<close>

theorem parseTime_resolution:
  assumes "parseTime timeString None now = Inr d"
  shows "dayOf d = dayOf now
       \<and> parseTime timeString (Some (At r)) now = Inr (if d < r then d + msPerDay else d)
       \<and> (dayOf r = dayOf now \<longrightarrow>
            parseTime timeString (Some (At r)) now
              = Inr (resolveOnReferenceDay (d - startOfDay now) r)
          \<and> r \<le> (if d < r then d + msPerDay else d))
       \<and> recalcSections (At (startOfDay clock + 85800000)) [closingSection] clock
            = (None, [closingSection\<lparr>start := ''23:50:00'', end' := ''00:10:00''\<rparr>])
       \<and> resolveInterval \<lparr>title = ''Late'', start_time = ''23:50:00'', sections = []\<rparr>
            (closingSection\<lparr>start := ''23:50:00'', end' := ''00:10:00''\<rparr>) clock
            = Inr (startOfDay clock + 85800000, startOfDay clock + 87000000)
       \<and> dayOf (startOfDay clock + 87000000) = dayOf (startOfDay clock + 85800000) + 1"
proof (intro conjI impI)
  note t = parseTime_today [OF assms]
  show "dayOf d = dayOf now" using t by simp
  show p: "parseTime timeString (Some (At r)) now = Inr (if d < r then d + msPerDay else d)"
    by (subst parseTime_reference) (simp add: assms rollForward_def)
  {
    assume s: "dayOf r = dayOf now"
    have e: "startOfDay r + (d - startOfDay now) = d" using startOfDay_same [OF s] by simp
    show "parseTime timeString (Some (At r)) now
              = Inr (resolveOnReferenceDay (d - startOfDay now) r)"
      unfolding p resolveOnReferenceDay_def Let_def e by simp
    have "r < startOfDay now + 86400000"
      using startOfDay_bounds [of r] startOfDay_same [OF s] by simp
    then show "r \<le> (if d < r then d + msPerDay else d)"
      using t by (simp add: msPerDay_def)
  }
  have f1: "formatTime (At 85800000) = ''23:50:00''" by code_simp
  have f2: "formatTime (At 87000000) = ''00:10:00''" by code_simp
  have p1: "parseTime ''23:50:00'' None 0 = Inr 85800000" by code_simp
  have p2: "parseTime ''00:10:00'' None 0 = Inr 600000" by code_simp
  have d1: "duration closingSection = Num 20" by (simp add: closingSection_def)
  have g1: "formatTime (At (startOfDay clock + 85800000)) = ''23:50:00''"
    by (simp only: formatTime_startOfDay f1)
  have "startOfDay clock + 85800000 + 20 * 60000 = startOfDay clock + 87000000" by simp
  then have g2: "formatTime (At (startOfDay clock + 85800000 + 20 * 60000)) = ''00:10:00''"
    by (simp only: formatTime_startOfDay f2)
  have q1: "parseTime ''23:50:00'' None clock = Inr (startOfDay clock + 85800000)"
    by (subst parseTime_clock) (simp add: p1)
  have q2: "parseTime ''00:10:00'' None clock = Inr (startOfDay clock + 600000)"
    by (subst parseTime_clock) (simp add: p2)
  have r1: "parseTime ''23:50:00'' (Some (At (startOfDay clock + 85800000))) clock
              = Inr (startOfDay clock + 85800000)"
    by (subst parseTime_reference) (simp add: q1 rollForward_def)
  have r2: "parseTime ''00:10:00'' (Some (At (startOfDay clock + 85800000))) clock
              = Inr (startOfDay clock + 87000000)"
    by (subst parseTime_reference) (simp add: q2 rollForward_def msPerDay_def)
  show "recalcSections (At (startOfDay clock + 85800000)) [closingSection] clock
            = (None, [closingSection\<lparr>start := ''23:50:00'', end' := ''00:10:00''\<rparr>])"
    by (simp only: recalcSections.simps Let_def g1 r1 sum.case d1 addMinutes_def prod.case
          jsdate.case number.case g2)
  show "resolveInterval \<lparr>title = ''Late'', start_time = ''23:50:00'', sections = []\<rparr>
            (closingSection\<lparr>start := ''23:50:00'', end' := ''00:10:00''\<rparr>) clock
            = Inr (startOfDay clock + 85800000, startOfDay clock + 87000000)"
    by (simp add: resolveInterval_def q1 r1 r2)
  have "startOfDay clock + 87000000 = 600000 + (clock div 86400000 + 1) * 86400000"
    by (simp add: startOfDay_def)
  then have a: "dayOf (startOfDay clock + 87000000) = clock div 86400000 + 1"
    unfolding dayOf_def by (simp only: div_mult_self1)
  have "startOfDay clock + 85800000 = 85800000 + (clock div 86400000) * 86400000"
    by (simp add: startOfDay_def)
  then have b: "dayOf (startOfDay clock + 85800000) = clock div 86400000"
    unfolding dayOf_def by (simp only: div_mult_self1)
  show "dayOf (startOfDay clock + 87000000) = dayOf (startOfDay clock + 85800000) + 1"
    using a b by simp
qed


theorem parseTime_resolution_witness:
  "parseTime ''00:10:00'' None 0 = Inr 600000
   \<and> dayOf 85800000 = dayOf 0
   \<and> parseTime ''00:10:00'' (Some (At 85800000)) 0 = Inr 87000000
   \<and> parseTime ''00:10:00'' (Some (At 85800000)) 0
        = Inr (resolveOnReferenceDay (600000 - startOfDay 0) 85800000)
   \<and> dayOf 87000000 = dayOf 85800000 + 1"
proof -
  have h: "parseTime ''00:10:00'' None 0 = Inr 600000" by code_simp
  have s: "dayOf 85800000 = dayOf 0" by (simp add: dayOf_def)
  note T = parseTime_resolution [OF h, of 85800000 0]
  have a: "parseTime ''00:10:00'' (Some (At 85800000)) 0 = Inr 87000000"
    using T [THEN conjunct2, THEN conjunct1] by (simp add: msPerDay_def)
  have b: "parseTime ''00:10:00'' (Some (At 85800000)) 0
        = Inr (resolveOnReferenceDay (600000 - startOfDay 0) 85800000)"
    using T [THEN conjunct2, THEN conjunct2, THEN conjunct1, THEN mp, OF s] by (rule conjunct1)
  have c: "dayOf 87000000 = dayOf 85800000 + 1" by (simp add: dayOf_def)
  from h s a b c show ?thesis by (intro conjI)
qed

subsection \<open>Adjusting a section whose name is repeated\<close>

lemma findIndex_Some:
  "(findIndex P xs = Some f) = (f < length xs \<and> P (xs ! f) \<and> (\<forall>k<f. \<not> P (xs ! k)))"
proof (induction xs arbitrary: f)
  case Nil
  then show ?case by simp
next
  case (Cons x xs)
  show ?case
  proof (cases "P x")
    case True
    then show ?thesis by (cases f) auto
  next
    case False
    show ?thesis
    proof (cases f)
      case 0
      with False show ?thesis by simp
    next
      case (Suc f')
      have "(\<forall>k<Suc f'. \<not> P ((x # xs) ! k)) = (\<forall>k<f'. \<not> P (xs ! k))"
        using False by (auto simp: less_Suc_eq_0_disj)
      with False Suc Cons.IH [of f'] show ?thesis by auto
    qed
  qed
qed


lemma rollForward_after_start:
  assumes "parseTime st None now = Inr ps" "parseTime s None now = Inr x"
  shows "ps \<le> rollForward (Some (At ps)) x"
proof -
  from parseTime_today [OF assms(1)] have a: "ps < startOfDay now + 86400000" by simp
  from parseTime_today [OF assms(2)] have b: "startOfDay now \<le> x" by simp
  show ?thesis using a b by (simp add: rollForward_def msPerDay_def)
qed

lemma contains_started:
  assumes "contains data time now s"
  shows "\<exists>ps. parseTime (start_time data) None now = Inr ps \<and> ps \<le> time"
proof -
  from assms obtain a b where r: "resolveInterval data s now = Inr (a, b)" and t: "a \<le> time"
    by (auto simp: contains_def split: sum.splits)
  from r obtain ps where ps: "parseTime (start_time data) None now = Inr ps"
    by (auto simp: resolveInterval_def split: sum.splits)
  from r ps obtain x where x: "parseTime (start s) None now = Inr x"
    and a: "a = rollForward (Some (At ps)) x"
    by (subst (asm) resolveInterval_def, subst (asm) (2) parseTime_reference)
       (auto split: sum.splits)
  from rollForward_after_start [OF ps x] a t have "ps \<le> time" by simp
  with ps show ?thesis by simp
qed


lemma getCurrentSection_first:
  assumes "presentationData st = Some data" "j < length (sections data)"
    "contains data time now (sections data ! j)"
    "\<forall>k < j. \<not> contains data time now (sections data ! k)"
  shows "\<exists>a b. getCurrentSection time now st
           = Some \<lparr>cs_name = name (sections data ! j), cs_start = a, cs_end = b\<rparr>"
proof -
  have "find (contains data time now) (sections data) = Some (sections data ! j)"
    unfolding find_Some_iff using assms(2,3,4) by blast
  moreover from assms(3) obtain a b where
    "asCurrent data now (sections data ! j)
       = Some \<lparr>cs_name = name (sections data ! j), cs_start = a, cs_end = b\<rparr>"
    by (auto simp: contains_def asCurrent_def split: sum.splits)
  ultimately show ?thesis
    using assms(1) by (simp add: getCurrentSection_def scanSections_find)
qed

text \<open>
  The branches of \<^verbatim>\<open>adjustTimes\<close>: before the start the start time is shifted and the
  schedule recomputed; with no current section nothing changes; and when no earlier
  section bears the name of the current section, the current section is the one adjusted.
\<close>

lemma adjustTimes_before_start:
  assumes "presentationData st = Some data"
    "parseTime (start_time data) None now = Inr ps" "now < ps"
  shows "adjustTimes minutes now st
           = recalculateTimesFromStart (formatTime (At (ps + minutes * 60 * 1000))) now st"
  using assms by (simp add: adjustTimes_def Let_def)

lemma adjustTimes_no_current:
  assumes "presentationData st = Some data"
    "parseTime (start_time data) None now = Inr ps" "\<not> now < ps"
    "getCurrentSection now now st = None"
  shows "adjustTimes minutes now st = st"
  using assms by (simp add: adjustTimes_def)

lemma adjustTimes_current:
  assumes "presentationData st = Some data" "j < length (sections data)"
    "contains data now now (sections data ! j)"
    "\<forall>k < j. \<not> contains data now now (sections data ! k)"
    "\<forall>k < j. name (sections data ! k) \<noteq> name (sections data ! j)"
  shows "adjustTimes minutes now st =
           (if lessThanOne (addNumber (duration (sections data ! j)) minutes) then st
            else updateSectionDuration (int j)
                   (addNumber (duration (sections data ! j)) minutes) now st)"
proof -
  from contains_started [OF assms(3)] obtain ps where
    ps: "parseTime (start_time data) None now = Inr ps" "ps \<le> now" by auto
  from getCurrentSection_first [OF assms(1,2,3,4)] obtain a b where
    cur: "getCurrentSection now now st
            = Some \<lparr>cs_name = name (sections data ! j), cs_start = a, cs_end = b\<rparr>" by auto
  have f: "findIndex (\<lambda>s. name s = name (sections data ! j)) (sections data) = Some j"
    unfolding findIndex_Some using assms(2,5) by simp
  show ?thesis using assms(1) ps cur f by (simp add: adjustTimes_def Let_def)
qed




end
